theory Spec2Isabelle
  imports Main
begin

section \<open>Strings as the pages use them\<close>

text \<open>
  The pages are TypeScript; their strings are modelled as \<open>string\<close> (lists of characters).
  A column that may be \<open>NULL\<close> is a \<open>string option\<close>. Letter case is modelled for the
  ASCII letters, which covers every keyword and literal the pages compare against, white
  space for the characters below 256.
\<close>

definition toLowerCase_char :: "char \<Rightarrow> char" where
  "toLowerCase_char c =
     (let n = (of_char c :: nat) in if 65 \<le> n \<and> n \<le> 90 then char_of (n + 32) else c)"

definition toLowerCase :: "string \<Rightarrow> string" where
  "toLowerCase s = map toLowerCase_char s"

fun startsWith :: "string \<Rightarrow> string \<Rightarrow> bool" where
  "startsWith s [] = True"
| "startsWith [] (c # cs) = False"
| "startsWith (x # xs) (c # cs) = (x = c \<and> startsWith xs cs)"

text \<open>\<open>s.includes(sub)\<close>: \<open>sub\<close> occurs in \<open>s\<close> at some position.\<close>

fun includes_str :: "string \<Rightarrow> string \<Rightarrow> bool" where
  "includes_str [] sub = startsWith [] sub"
| "includes_str (x # xs) sub = (startsWith (x # xs) sub \<or> includes_str xs sub)"

definition is_space :: "char \<Rightarrow> bool" where
  "is_space c =
     (c \<in> set [CHR 0x09, CHR 0x0A, CHR 0x0B, CHR 0x0C, CHR 0x0D, CHR 0x20, CHR 0xA0])"

text \<open>\<open>s.trim()\<close>: white space removed at both ends.\<close>

definition trim :: "string \<Rightarrow> string" where
  "trim s = rev (dropWhile is_space (rev (dropWhile is_space s)))"

text \<open>A value used as a condition: \<open>null\<close> and the empty string are falsy.\<close>

fun truthy :: "string option \<Rightarrow> bool" where
  "truthy None = False"
| "truthy (Some s) = (s \<noteq> [])"

text \<open>\<open>v || ''\<close> on a nullable string.\<close>

fun or_empty :: "string option \<Rightarrow> string" where
  "or_empty None = []"
| "or_empty (Some s) = s"

text \<open>A nullable string inside a template literal: \<open>null\<close> is written out as text.\<close>

fun template_str :: "string option \<Rightarrow> string" where
  "template_str None = ''null''"
| "template_str (Some s) = s"


section \<open>The assistant's reply table (ai-assistant/page.tsx)\<close>

definition draft_reply :: string where
  "draft_reply = ''I have drafted the document based on your requirements. Here is the suggested text:\<newline>\<newline>[Document content would appear here with proper formatting and legal language based on the case details provided]''"

definition analysis_reply :: string where
  "analysis_reply = ''Based on my analysis of the document, here are my observations:\<newline>\<newline>1. The agreement contains several ambiguous clauses in sections 3.2 and 5.1 that could be clarified.\<newline>2. The indemnification clause is more favorable to the opposing party.\<newline>3. There are potential compliance issues with local regulations in section 7.\<newline>\<newline>I recommend revising these sections to strengthen your client's position.''"

definition summary_reply :: string where
  "summary_reply = ''Summary of the document:\<newline>\<newline>This is a mortgage foreclosure complaint filed against John Doe regarding the property at 123 Main St. The complaint alleges that the defendant has failed to make payments for 6 months, totaling $12,500 in arrears. The plaintiff is seeking foreclosure and sale of the property to satisfy the debt of $275,000 plus interest and costs.''"

definition deadlines_reply :: string where
  "deadlines_reply = ''Based on the foreclosure regulations in this jurisdiction, here are the key deadlines to be aware of:\<newline>\<newline>- Defendant has 21 days to file an answer to the complaint\<newline>- If no answer is filed, you can move for default judgment after day 22\<newline>- Redemption period is 6 months from judgment\<newline>- Sale can be scheduled approximately 30-45 days after judgment\<newline>- Confirmation hearing typically 30 days after sale''"

definition default_reply :: string where
  "default_reply = ''I've analyzed your request and the case information provided. To best assist you with this legal matter, I would need more specific details about what you're looking to accomplish. Would you like me to draft a document, review existing content, provide legal analysis, or suggest strategy?''"

text \<open>
  \<open>fetchAIResponse(prompt, caseContext, documentContext)\<close>. The two contexts are only
  logged; the simulated delay has no effect on the value returned.
\<close>

definition fetchAIResponse :: "string \<Rightarrow> 'c option \<Rightarrow> string option \<Rightarrow> string" where
  "fetchAIResponse prompt caseContext documentContext =
     (if includes_str (toLowerCase prompt) ''draft'' \<or> includes_str (toLowerCase prompt) ''write''
        then draft_reply
      else if includes_str (toLowerCase prompt) ''analyze'' \<or> includes_str (toLowerCase prompt) ''review''
        then analysis_reply
      else if includes_str (toLowerCase prompt) ''summarize''
        then summary_reply
      else if includes_str (toLowerCase prompt) ''deadline'' \<or> includes_str (toLowerCase prompt) ''timeline''
        then deadlines_reply
      else default_reply)"

text \<open>
  The reply table as the specification words it: the drafting reply is keyed on
  \<open>draft\<close> alone. Used only for comparison with \<open>fetchAIResponse\<close>.
\<close>

definition claimed_reply :: "string \<Rightarrow> string" where
  "claimed_reply prompt =
     (if includes_str (toLowerCase prompt) ''draft''
        then draft_reply
      else if includes_str (toLowerCase prompt) ''analyze'' \<or> includes_str (toLowerCase prompt) ''review''
        then analysis_reply
      else if includes_str (toLowerCase prompt) ''summarize''
        then summary_reply
      else if includes_str (toLowerCase prompt) ''deadline'' \<or> includes_str (toLowerCase prompt) ''timeline''
        then deadlines_reply
      else default_reply)"


section \<open>The schema (tables of the data store)\<close>

text \<open>
  Every table is keyed by an identifier; every table but the one of the firms carries a
  creation time and the firm it belongs to. Only the columns that the pages read or write
  are kept. Instants are milliseconds; money is counted in hundredths.
\<close>

type_synonym uuid = string
type_synonym instant = int

record row =
  row_id :: uuid
  created_at :: instant
  firm_id :: uuid

record firm_row =
  firm_row_id :: uuid
  firm_name :: string
  is_active :: bool

record user_row = row +
  user_first_name :: string
  user_last_name :: string

record party_row = row +
  first_name :: "string option"
  last_name :: "string option"
  organization_name :: "string option"
  is_client :: bool

record case_row = row +
  case_number :: string
  title :: string
  case_type :: string
  status :: string
  description :: "string option"
  assigned_to :: "uuid option"
  client_id :: uuid
  opposing_party_id :: "uuid option"
  court_name :: "string option"
  court_location :: "string option"
  judge_name :: "string option"
  filing_date :: "instant option"
  closure_date :: "instant option"

text \<open>A row of a child table names the case it belongs to.\<close>

record child_row = row +
  case_id :: uuid

record security_interest_row = child_row +
  si_type :: string
  si_description :: string
  property_address :: "string option"
  recorded_date :: "instant option"
  amount :: int
  lien_position :: "int option"
  lender_id :: uuid
  borrower_id :: uuid
  maturity_date :: "instant option"
  interest_rate :: "int option"
  property_value :: "int option"

record document_row = child_row +
  doc_name :: string
  document_type :: string
  file_path :: string
  file_size :: int
  uploaded_by :: uuid
  version :: int
  is_template :: bool
  related_party_id :: "uuid option"

record deadline_row = child_row +
  dl_title :: string
  dl_description :: "string option"
  due_date :: instant
  priority :: string
  dl_status :: string
  dl_assigned_to :: "uuid option"
  reminder_date :: "instant option"

record financial_row = child_row +
  transaction_type :: string
  fin_amount :: int
  fin_description :: "string option"
  transaction_date :: instant
  recorded_by :: uuid
  invoice_id :: "string option"
  party_id :: "uuid option"

text \<open>The four tables whose rows name a case, and the writes that the pages request.\<close>

datatype child_table = SecurityInterests | Documents | Deadlines | Financials

datatype db_op =
    InsertCase uuid
  | InsertSecurityInterest uuid
  | DeleteOfCase child_table uuid
  | DeleteCase uuid

record db =
  firms :: "firm_row list"
  users :: "user_row list"
  parties :: "party_row list"
  cases :: "case_row list"
  security_interests :: "security_interest_row list"
  documents :: "document_row list"
  deadlines :: "deadline_row list"
  financials :: "financial_row list"
  journal :: "db_op list"

datatype error = NotSingleRow | ForeignKeyViolation | RequestFailed


section \<open>The query builder\<close>

text \<open>
  A query is the list of the filters added to it so far; a row is selected when it passes
  all of them. \<open>single\<close> answers with an error unless exactly one row is selected;
  \<open>range from to\<close> answers with the rows at the positions \<open>from\<close> to \<open>to\<close> of the result,
  both included, and with no row where the result is shorter; \<open>order\<close> on a column,
  descending, is a sort on the negated column, rows of equal value staying in the order of
  the table.
\<close>

definition run_query :: "('r \<Rightarrow> bool) list \<Rightarrow> 'r list \<Rightarrow> 'r list" where
  "run_query q rows = filter (\<lambda>r. list_all (\<lambda>p. p r) q) rows"

definition count_exact :: "('r \<Rightarrow> bool) list \<Rightarrow> 'r list \<Rightarrow> nat" where
  "count_exact q rows = length (run_query q rows)"

fun single :: "'r list \<Rightarrow> error + 'r" where
  "single [r] = Inr r"
| "single rs = Inl NotSingleRow"

definition maybe_single :: "'r list \<Rightarrow> 'r option" where
  "maybe_single rs = (case single rs of Inl e \<Rightarrow> None | Inr r \<Rightarrow> Some r)"

definition order_desc :: "('r \<Rightarrow> int) \<Rightarrow> 'r list \<Rightarrow> 'r list" where
  "order_desc col rows = sort_key (\<lambda>r. - col r) rows"

definition order_asc :: "('r \<Rightarrow> int) \<Rightarrow> 'r list \<Rightarrow> 'r list" where
  "order_asc col rows = sort_key col rows"

definition range_rows :: "nat \<Rightarrow> nat \<Rightarrow> 'r list \<Rightarrow> 'r list" where
  "range_rows from to rows = take (to + 1 - from) (drop from rows)"

text \<open>
  \<open>column.ilike.%term%\<close>: the term occurs in the column, letter case ignored. This is the
  meaning of the filter for a search term of letters, digits and spaces; the pages put the
  term into the filter as typed, and a term with a pattern character (\<open>%\<close>, \<open>_\<close>, \<open>*\<close>), a
  comma or a parenthesis is outside of what is modelled here.
\<close>

definition ilike_contains :: "string \<Rightarrow> string \<Rightarrow> bool" where
  "ilike_contains term col = includes_str (toLowerCase col) (toLowerCase term)"


text \<open>
  A request under construction: its column list, the filters added so far, and whether an
  exact count and a head answer were asked for. \<open>from(table).select(columns, options)\<close>
  starts a request and takes the options. \<open>select\<close> called on a request that already
  carries filters takes a column list and nothing else: it replaces the column list, and
  what is passed in the place of options is not looked at. A request is one object, so what
  is done to it stays done the next time it is awaited. The answer carries a count only if
  one was asked for.
\<close>

datatype select_options = no_options | count_exact_head

record 'r request =
  columns :: "string list"
  filters :: "('r \<Rightarrow> bool) list"
  count_wanted :: bool
  head_only :: bool

definition from_select :: "string list \<Rightarrow> select_options \<Rightarrow> 'r request" where
  "from_select cols opts =
     \<lparr> columns = cols, filters = [], count_wanted = (opts = count_exact_head),
       head_only = (opts = count_exact_head) \<rparr>"

definition with_filters :: "('r \<Rightarrow> bool) list \<Rightarrow> 'r request \<Rightarrow> 'r request" where
  "with_filters ps q = q\<lparr>filters := filters q @ ps\<rparr>"

definition select_on_filtered :: "string list \<Rightarrow> select_options \<Rightarrow> 'r request \<Rightarrow> 'r request" where
  "select_on_filtered cols opts q = q\<lparr>columns := cols\<rparr>"

definition answered_count :: "'r request \<Rightarrow> 'r list \<Rightarrow> nat option" where
  "answered_count q rows =
     (if count_wanted q then Some (count_exact (filters q) rows) else None)"

text \<open>\<open>count || 0\<close> on the count of an answer.\<close>

definition count_or_0 :: "nat option \<Rightarrow> nat" where
  "count_or_0 c = (case c of None \<Rightarrow> 0 | Some n \<Rightarrow> n)"


section \<open>Resolving the caller's firm\<close>

text \<open>
  \<open>fetchFirmId\<close>, the same in every page: the signed-in user's row of \<open>users\<close>, looked up
  by the user's id, gives the firm; without a signed-in user, a row or a firm there is none.
\<close>

definition fetchFirmId :: "db \<Rightarrow> uuid option \<Rightarrow> uuid option" where
  "fetchFirmId d user =
     (case user of
        None \<Rightarrow> None
      | Some uid \<Rightarrow>
         (case maybe_single (run_query [\<lambda>u. row_id u = uid] (users d)) of
            None \<Rightarrow> None
          | Some u \<Rightarrow> if firm_id u \<noteq> [] then Some (firm_id u) else None))"


section \<open>Display names\<close>

text \<open>\<open>getPartyDisplayName\<close> of the case page (cases/[id]/page.tsx).\<close>

definition getPartyDisplayName :: "party_row option \<Rightarrow> string" where
  "getPartyDisplayName party =
     (case party of
        None \<Rightarrow> ''Unknown''
      | Some p \<Rightarrow>
         if truthy (organization_name p) then or_empty (organization_name p)
         else trim (or_empty (first_name p) @ '' '' @ or_empty (last_name p)))"

text \<open>
  The client name as the dashboard computes it in line (dashboard/page.tsx): the two name
  parts go into the template literal as they are. The case list (cases/page.tsx) has the
  same expression behind a test of the row's \<open>client_id\<close>, which its rows, holding the id
  only, do not carry.
\<close>

definition clientName :: "party_row option \<Rightarrow> string" where
  "clientName clientData =
     (case clientData of
        None \<Rightarrow> ''Unknown Client''
      | Some p \<Rightarrow>
         if truthy (organization_name p) then or_empty (organization_name p)
         else template_str (first_name p) @ '' '' @ template_str (last_name p))"

text \<open>
  The display-name rule as the specification words it, for comparison: the organization
  name when it is not empty, else the trimmed concatenation of the name parts, else the
  fallback literal.
\<close>

definition claimed_display_name :: "string \<Rightarrow> party_row \<Rightarrow> string" where
  "claimed_display_name fallback p =
     (if truthy (organization_name p) then or_empty (organization_name p)
      else if trim (or_empty (first_name p) @ '' '' @ or_empty (last_name p)) \<noteq> []
      then trim (or_empty (first_name p) @ '' '' @ or_empty (last_name p))
      else fallback)"

definition userName :: "user_row \<Rightarrow> string" where
  "userName u = user_first_name u @ '' '' @ user_last_name u"

definition party_by_id :: "db \<Rightarrow> uuid \<Rightarrow> party_row option" where
  "party_by_id d pid = maybe_single (run_query [\<lambda>p. row_id p = pid] (parties d))"

definition user_by_id :: "db \<Rightarrow> uuid \<Rightarrow> user_row option" where
  "user_by_id d uid = maybe_single (run_query [\<lambda>u. row_id u = uid] (users d))"


section \<open>The case list (cases/page.tsx)\<close>

definition itemsPerPage :: nat where
  "itemsPerPage = 10"

text \<open>A case as an answer delivers it: a column that was not selected is absent.\<close>

record case_json =
  j_id :: "uuid option"
  j_title :: "string option"
  j_case_number :: "string option"
  j_case_type :: "string option"
  j_status :: "string option"
  j_client_id :: "uuid option"
  j_filing_date :: "instant option"
  j_assigned_to :: "uuid option"

definition select_case :: "string list \<Rightarrow> case_row \<Rightarrow> case_json" where
  "select_case cols r =
     \<lparr> j_id = (if ''id'' \<in> set cols then Some (row_id r) else None),
       j_title = (if ''title'' \<in> set cols then Some (title r) else None),
       j_case_number = (if ''case_number'' \<in> set cols then Some (case_number r) else None),
       j_case_type = (if ''case_type'' \<in> set cols then Some (case_type r) else None),
       j_status = (if ''status'' \<in> set cols then Some (status r) else None),
       j_client_id = (if ''client_id'' \<in> set cols then Some (client_id r) else None),
       j_filing_date = (if ''filing_date'' \<in> set cols then filing_date r else None),
       j_assigned_to = (if ''assigned_to'' \<in> set cols then assigned_to r else None) \<rparr>"

record case_item =
  item :: case_json
  client_name :: string
  assigned_to_name :: "string option"

record cases_page =
  totalPages :: nat
  shown :: "case_item list"

text \<open>The filters that \<open>fetchCases\<close> adds to its query.\<close>

definition fetchCases_filters :: "uuid \<Rightarrow> string \<Rightarrow> string \<Rightarrow> string \<Rightarrow> (case_row \<Rightarrow> bool) list" where
  "fetchCases_filters firmId searchTerm statusFilter typeFilter =
     [\<lambda>c. firm_id c = firmId]
     @ (if searchTerm \<noteq> []
        then [\<lambda>c. ilike_contains searchTerm (title c) \<or> ilike_contains searchTerm (case_number c)]
        else [])
     @ (if statusFilter \<noteq> ''all'' then [\<lambda>c. status c = statusFilter] else [])
     @ (if typeFilter \<noteq> ''all'' then [\<lambda>c. case_type c = typeFilter] else [])"

text \<open>The query of \<open>fetchCases\<close> once its filters are applied.\<close>

definition fetchCases_query :: "uuid \<Rightarrow> string \<Rightarrow> string \<Rightarrow> string \<Rightarrow> case_row request" where
  "fetchCases_query firmId searchTerm statusFilter typeFilter =
     with_filters (fetchCases_filters firmId searchTerm statusFilter typeFilter)
       (from_select
          [''id'', ''title'', ''case_number'', ''case_type'', ''status'', ''client_id'',
           ''filing_date'', ''assigned_to'']
          no_options)"

text \<open>The same query after \<open>query.select('id', { count: 'exact', head: true })\<close>.\<close>

definition fetchCases_counted :: "uuid \<Rightarrow> string \<Rightarrow> string \<Rightarrow> string \<Rightarrow> case_row request" where
  "fetchCases_counted firmId searchTerm statusFilter typeFilter =
     select_on_filtered [''id''] count_exact_head
       (fetchCases_query firmId searchTerm statusFilter typeFilter)"

definition ceil_div :: "nat \<Rightarrow> nat \<Rightarrow> nat" where
  "ceil_div n k = (n + k - 1) div k"

text \<open>
  The names added to a row of the page. A look-up by an absent id is answered with an
  error, which the page treats as no row.
\<close>

definition case_details :: "db \<Rightarrow> case_json \<Rightarrow> case_item" where
  "case_details d caseItem =
     \<lparr> item = caseItem,
       client_name =
         clientName (case j_client_id caseItem of
                       None \<Rightarrow> None
                     | Some pid \<Rightarrow> party_by_id d pid),
       assigned_to_name =
         (if truthy (j_assigned_to caseItem)
          then map_option userName (user_by_id d (or_empty (j_assigned_to caseItem)))
          else None) \<rparr>"

text \<open>The rows of the store that match the filters of the case list.\<close>

definition fetchCases_matching :: "db \<Rightarrow> uuid \<Rightarrow> string \<Rightarrow> string \<Rightarrow> string \<Rightarrow> case_row list" where
  "fetchCases_matching d firmId searchTerm statusFilter typeFilter =
     run_query (filters (fetchCases_query firmId searchTerm statusFilter typeFilter)) (cases d)"

text \<open>
  \<open>fetchCases\<close>: the count is the one in the answer to the query after its second
  \<open>select\<close>; the page is the range of the same query, awaited again; pages are numbered
  from 1. \<open>fetchCases_rows\<close> are the rows of the store that the range selects, and the page
  receives their selected columns.
\<close>

definition fetchCases_count :: "db \<Rightarrow> uuid \<Rightarrow> string \<Rightarrow> string \<Rightarrow> string \<Rightarrow> nat option" where
  "fetchCases_count d firmId searchTerm statusFilter typeFilter =
     answered_count (fetchCases_counted firmId searchTerm statusFilter typeFilter) (cases d)"

definition fetchCases_rows :: "db \<Rightarrow> uuid \<Rightarrow> string \<Rightarrow> string \<Rightarrow> string \<Rightarrow> nat \<Rightarrow> case_row list" where
  "fetchCases_rows d firmId searchTerm statusFilter typeFilter currentPage =
     (let from = (currentPage - 1) * itemsPerPage;
          to = from + itemsPerPage - 1
      in range_rows from to
           (order_desc created_at
              (run_query
                 (filters (fetchCases_counted firmId searchTerm statusFilter typeFilter))
                 (cases d))))"

definition fetchCases :: "db \<Rightarrow> uuid \<Rightarrow> string \<Rightarrow> string \<Rightarrow> string \<Rightarrow> nat \<Rightarrow> cases_page" where
  "fetchCases d firmId searchTerm statusFilter typeFilter currentPage =
     \<lparr> totalPages =
         ceil_div (count_or_0 (fetchCases_count d firmId searchTerm statusFilter typeFilter))
           itemsPerPage,
       shown =
         map (case_details d)
           (map (select_case
                   (columns (fetchCases_counted firmId searchTerm statusFilter typeFilter)))
              (fetchCases_rows d firmId searchTerm statusFilter typeFilter currentPage)) \<rparr>"

text \<open>
  The footer of the case list: it is rendered below a non-empty table when there is more
  than one page, and its total is the number of pages times the page size.
\<close>

definition footer_total :: "cases_page \<Rightarrow> nat option" where
  "footer_total page =
     (if shown page \<noteq> [] \<and> totalPages page > 1
      then Some (totalPages page * itemsPerPage) else None)"


section \<open>The document list (documents/page.tsx)\<close>

record document_json =
  dj_id :: "uuid option"
  dj_name :: "string option"
  dj_document_type :: "string option"
  dj_file_path :: "string option"
  dj_file_size :: "int option"
  dj_uploaded_by :: "uuid option"
  dj_version :: "int option"
  dj_created_at :: "instant option"
  dj_related_party_id :: "uuid option"
  dj_case_id :: "uuid option"

definition select_document :: "string list \<Rightarrow> document_row \<Rightarrow> document_json" where
  "select_document cols r =
     \<lparr> dj_id = (if ''id'' \<in> set cols then Some (row_id r) else None),
       dj_name = (if ''name'' \<in> set cols then Some (doc_name r) else None),
       dj_document_type =
         (if ''document_type'' \<in> set cols then Some (document_type r) else None),
       dj_file_path = (if ''file_path'' \<in> set cols then Some (file_path r) else None),
       dj_file_size = (if ''file_size'' \<in> set cols then Some (file_size r) else None),
       dj_uploaded_by = (if ''uploaded_by'' \<in> set cols then Some (uploaded_by r) else None),
       dj_version = (if ''version'' \<in> set cols then Some (version r) else None),
       dj_created_at = (if ''created_at'' \<in> set cols then Some (created_at r) else None),
       dj_related_party_id =
         (if ''related_party_id'' \<in> set cols then related_party_id r else None),
       dj_case_id = (if ''case_id'' \<in> set cols then Some (case_id r) else None) \<rparr>"

record document_item =
  doc :: document_json
  case_title :: string
  uploader_name :: string

record documents_page =
  doc_totalPages :: nat
  doc_shown :: "document_item list"

definition case_by_id :: "db \<Rightarrow> uuid \<Rightarrow> case_row option" where
  "case_by_id d cid = maybe_single (run_query [\<lambda>c. row_id c = cid] (cases d))"

definition fetchDocuments_filters :: "uuid \<Rightarrow> string \<Rightarrow> string \<Rightarrow> string \<Rightarrow> (document_row \<Rightarrow> bool) list" where
  "fetchDocuments_filters firmId searchTerm typeFilter caseFilter =
     [\<lambda>x. firm_id x = firmId]
     @ (if searchTerm \<noteq> [] then [\<lambda>x. ilike_contains searchTerm (doc_name x)] else [])
     @ (if typeFilter \<noteq> ''all'' then [\<lambda>x. document_type x = typeFilter] else [])
     @ (if caseFilter \<noteq> ''all'' then [\<lambda>x. case_id x = caseFilter] else [])"

definition fetchDocuments_query :: "uuid \<Rightarrow> string \<Rightarrow> string \<Rightarrow> string \<Rightarrow> document_row request" where
  "fetchDocuments_query firmId searchTerm typeFilter caseFilter =
     with_filters (fetchDocuments_filters firmId searchTerm typeFilter caseFilter)
       (from_select
          [''id'', ''name'', ''document_type'', ''file_path'', ''file_size'', ''uploaded_by'',
           ''version'', ''created_at'', ''related_party_id'', ''case_id'']
          no_options)"

definition fetchDocuments_counted :: "uuid \<Rightarrow> string \<Rightarrow> string \<Rightarrow> string \<Rightarrow> document_row request" where
  "fetchDocuments_counted firmId searchTerm typeFilter caseFilter =
     select_on_filtered [''id''] count_exact_head
       (fetchDocuments_query firmId searchTerm typeFilter caseFilter)"

definition document_details :: "db \<Rightarrow> document_json \<Rightarrow> document_item" where
  "document_details d x =
     \<lparr> doc = x,
       case_title =
         (case (case dj_case_id x of None \<Rightarrow> None | Some cid \<Rightarrow> case_by_id d cid) of
            None \<Rightarrow> ''Unknown Case''
          | Some c \<Rightarrow> if title c \<noteq> [] then title c else ''Unknown Case''),
       uploader_name =
         (case (case dj_uploaded_by x of None \<Rightarrow> None | Some uid \<Rightarrow> user_by_id d uid) of
            None \<Rightarrow> ''Unknown''
          | Some u \<Rightarrow> userName u) \<rparr>"

definition fetchDocuments_matching :: "db \<Rightarrow> uuid \<Rightarrow> string \<Rightarrow> string \<Rightarrow> string \<Rightarrow> document_row list" where
  "fetchDocuments_matching d firmId searchTerm typeFilter caseFilter =
     run_query (filters (fetchDocuments_query firmId searchTerm typeFilter caseFilter))
       (documents d)"

definition fetchDocuments_count :: "db \<Rightarrow> uuid \<Rightarrow> string \<Rightarrow> string \<Rightarrow> string \<Rightarrow> nat option" where
  "fetchDocuments_count d firmId searchTerm typeFilter caseFilter =
     answered_count (fetchDocuments_counted firmId searchTerm typeFilter caseFilter)
       (documents d)"

definition fetchDocuments_rows :: "db \<Rightarrow> uuid \<Rightarrow> string \<Rightarrow> string \<Rightarrow> string \<Rightarrow> nat \<Rightarrow> document_row list" where
  "fetchDocuments_rows d firmId searchTerm typeFilter caseFilter currentPage =
     (let from = (currentPage - 1) * itemsPerPage;
          to = from + itemsPerPage - 1
      in range_rows from to
           (order_desc created_at
              (run_query
                 (filters (fetchDocuments_counted firmId searchTerm typeFilter caseFilter))
                 (documents d))))"

definition fetchDocuments :: "db \<Rightarrow> uuid \<Rightarrow> string \<Rightarrow> string \<Rightarrow> string \<Rightarrow> nat \<Rightarrow> documents_page" where
  "fetchDocuments d firmId searchTerm typeFilter caseFilter currentPage =
     \<lparr> doc_totalPages =
         ceil_div (count_or_0 (fetchDocuments_count d firmId searchTerm typeFilter caseFilter))
           itemsPerPage,
       doc_shown =
         map (document_details d)
           (map (select_document
                   (columns (fetchDocuments_counted firmId searchTerm typeFilter caseFilter)))
              (fetchDocuments_rows d firmId searchTerm typeFilter caseFilter currentPage)) \<rparr>"


section \<open>The dashboard (dashboard/page.tsx)\<close>

record dashboard_stats =
  totalCases :: nat
  activeCases :: nat
  upcomingDeadlines :: nat
  totalParties :: nat
  totalDocuments :: nat

record dashboard_page =
  dash_user :: "uuid option"
  recentCases :: "(case_row \<times> string) list"
  stats :: dashboard_stats

definition initial_stats :: dashboard_stats where
  "initial_stats =
     \<lparr> totalCases = 0, activeCases = 0, upcomingDeadlines = 0, totalParties = 0,
       totalDocuments = 0 \<rparr>"

definition week :: int where
  "week = 7 * 24 * 60 * 60 * 1000"

text \<open>
  \<open>fetchUserAndData\<close>. The page reads its clock twice while it builds the deadline query,
  once for each bound: \<open>now_lower\<close> and \<open>now_upper\<close> are the two readings.
\<close>

definition fetchUserAndData :: "db \<Rightarrow> uuid option \<Rightarrow> instant \<Rightarrow> instant \<Rightarrow> dashboard_page" where
  "fetchUserAndData d user now_lower now_upper =
     (case fetchFirmId d user of
        None \<Rightarrow> \<lparr> dash_user = user, recentCases = [], stats = initial_stats \<rparr>
      | Some firmId \<Rightarrow>
          \<lparr> dash_user = user,
            recentCases =
              map (\<lambda>caseItem. (caseItem, clientName (party_by_id d (client_id caseItem))))
                (take 5 (order_desc created_at (run_query [\<lambda>c. firm_id c = firmId] (cases d)))),
            stats =
              \<lparr> totalCases = count_exact [\<lambda>c. firm_id c = firmId] (cases d),
                activeCases =
                  count_exact [\<lambda>c. firm_id c = firmId, \<lambda>c. status c = ''active''] (cases d),
                upcomingDeadlines =
                  count_exact
                    [\<lambda>x. firm_id x = firmId, \<lambda>x. now_lower \<le> due_date x,
                     \<lambda>x. due_date x \<le> now_upper + week]
                    (deadlines d),
                totalParties = count_exact [\<lambda>x. firm_id x = firmId] (parties d),
                totalDocuments = count_exact [\<lambda>x. firm_id x = firmId] (documents d) \<rparr> \<rparr>)"


section \<open>Writes to the store\<close>

text \<open>
  A request either reaches the store and is answered, or fails on the way
  (\<open>RequestFailed\<close>, the store unchanged); \<open>ok\<close> tells which. The store enforces the
  foreign keys of the schema between the tables modelled here: a case names a firm, a
  client, an opposing party and an assignee that exist, a security interest names a firm,
  a case and two parties that exist, and a case that a row of a child table still
  references cannot be deleted. Every request that was awaited is entered in the journal,
  answered or not.
\<close>

definition ids :: "('a row_scheme) list \<Rightarrow> uuid set" where
  "ids rows = set (map row_id rows)"

definition exists_or_null :: "uuid option \<Rightarrow> uuid set \<Rightarrow> bool" where
  "exists_or_null ref present = (case ref of None \<Rightarrow> True | Some x \<Rightarrow> x \<in> present)"

definition logged :: "db_op \<Rightarrow> db \<Rightarrow> db" where
  "logged op d = d\<lparr>journal := journal d @ [op]\<rparr>"

definition insert_case :: "(db_op \<Rightarrow> bool) \<Rightarrow> case_row \<Rightarrow> db \<Rightarrow> db \<times> error option" where
  "insert_case ok r d =
     (if \<not> ok (InsertCase (row_id r)) then (logged (InsertCase (row_id r)) d, Some RequestFailed)
      else if firm_id r \<in> set (map firm_row_id (firms d)) \<and> client_id r \<in> ids (parties d)
              \<and> exists_or_null (opposing_party_id r) (ids (parties d))
              \<and> exists_or_null (assigned_to r) (ids (users d))
      then (logged (InsertCase (row_id r)) (d\<lparr>cases := cases d @ [r]\<rparr>), None)
      else (logged (InsertCase (row_id r)) d, Some ForeignKeyViolation))"

definition insert_security_interest ::
    "(db_op \<Rightarrow> bool) \<Rightarrow> security_interest_row \<Rightarrow> db \<Rightarrow> db \<times> error option" where
  "insert_security_interest ok r d =
     (if \<not> ok (InsertSecurityInterest (row_id r))
      then (logged (InsertSecurityInterest (row_id r)) d, Some RequestFailed)
      else if firm_id r \<in> set (map firm_row_id (firms d)) \<and> case_id r \<in> ids (cases d)
              \<and> lender_id r \<in> ids (parties d) \<and> borrower_id r \<in> ids (parties d)
      then (logged (InsertSecurityInterest (row_id r))
              (d\<lparr>security_interests := security_interests d @ [r]\<rparr>), None)
      else (logged (InsertSecurityInterest (row_id r)) d, Some ForeignKeyViolation))"

definition referenced :: "uuid \<Rightarrow> db \<Rightarrow> bool" where
  "referenced cid d =
     (cid \<in> set (map case_id (security_interests d)) \<or> cid \<in> set (map case_id (documents d))
      \<or> cid \<in> set (map case_id (deadlines d)) \<or> cid \<in> set (map case_id (financials d)))"

text \<open>
  \<open>from(table).delete().eq('case_id', id)\<close> on a child table, and
  \<open>from('cases').delete().eq('id', id)\<close>.
\<close>

fun delete_of_case :: "child_table \<Rightarrow> uuid \<Rightarrow> db \<Rightarrow> db" where
  "delete_of_case SecurityInterests cid d =
     d\<lparr>security_interests := filter (\<lambda>r. case_id r \<noteq> cid) (security_interests d)\<rparr>"
| "delete_of_case Documents cid d =
     d\<lparr>documents := filter (\<lambda>r. case_id r \<noteq> cid) (documents d)\<rparr>"
| "delete_of_case Deadlines cid d =
     d\<lparr>deadlines := filter (\<lambda>r. case_id r \<noteq> cid) (deadlines d)\<rparr>"
| "delete_of_case Financials cid d =
     d\<lparr>financials := filter (\<lambda>r. case_id r \<noteq> cid) (financials d)\<rparr>"

definition delete_case :: "uuid \<Rightarrow> db \<Rightarrow> error + db" where
  "delete_case cid d =
     (if cid \<in> ids (cases d) \<and> referenced cid d then Inl ForeignKeyViolation
      else Inr (d\<lparr>cases := filter (\<lambda>r. row_id r \<noteq> cid) (cases d)\<rparr>))"

definition request_delete_of_case ::
    "(db_op \<Rightarrow> bool) \<Rightarrow> child_table \<Rightarrow> uuid \<Rightarrow> db \<Rightarrow> db \<times> error option" where
  "request_delete_of_case ok t cid d =
     (if \<not> ok (DeleteOfCase t cid) then (logged (DeleteOfCase t cid) d, Some RequestFailed)
      else (logged (DeleteOfCase t cid) (delete_of_case t cid d), None))"

definition request_delete_case :: "(db_op \<Rightarrow> bool) \<Rightarrow> uuid \<Rightarrow> db \<Rightarrow> db \<times> error option" where
  "request_delete_case ok cid d =
     (if \<not> ok (DeleteCase cid) then (logged (DeleteCase cid) d, Some RequestFailed)
      else case delete_case cid d of
             Inl e \<Rightarrow> (logged (DeleteCase cid) d, Some e)
           | Inr d' \<Rightarrow> (logged (DeleteCase cid) d', None))"

text \<open>What a handler does besides changing the store.\<close>

datatype effect = Nothing | Navigate string | Alert string


section \<open>Creating a case (cases/new/page.tsx)\<close>

record new_case_form =
  f_title :: string
  f_case_number :: string
  f_case_type :: string
  f_status :: string
  f_description :: "string option"
  f_client_id :: string
  f_opposing_party_id :: "string option"
  f_assigned_to :: "string option"
  f_court_name :: "string option"
  f_court_location :: "string option"
  f_judge_name :: "string option"
  f_filing_date :: "instant option"

text \<open>
  The case type comes from a select of the form; these are the values of its options, the
  first one being the default.
\<close>

definition case_type_options :: "string list" where
  "case_type_options =
     [''foreclosure'', ''civil litigation'', ''family law'', ''corporate law'', ''real estate'']"

text \<open>\<open>newCaseSchema\<close>: the five required fields are not empty.\<close>

definition newCaseSchema :: "new_case_form \<Rightarrow> bool" where
  "newCaseSchema data =
     (f_title data \<noteq> [] \<and> f_case_number data \<noteq> [] \<and> f_case_type data \<noteq> []
      \<and> f_status data \<noteq> [] \<and> f_client_id data \<noteq> [])"

text \<open>\<open>v || null\<close> on an optional string.\<close>

definition or_null :: "string option \<Rightarrow> string option" where
  "or_null v = (if truthy v then v else None)"

text \<open>
  \<open>onSubmit\<close>. The store supplies the identifiers of the two new rows and the creation
  time; they are parameters here.
\<close>

definition new_case_row :: "uuid \<Rightarrow> new_case_form \<Rightarrow> uuid \<Rightarrow> instant \<Rightarrow> case_row" where
  "new_case_row firmId data new_id now =
     \<lparr> row_id = new_id, created_at = now, firm_id = firmId,
       case_number = f_case_number data, title = f_title data,
       case_type = f_case_type data, status = f_status data,
       description = or_null (f_description data),
       assigned_to = or_null (f_assigned_to data),
       client_id = f_client_id data,
       opposing_party_id = or_null (f_opposing_party_id data),
       court_name = or_null (f_court_name data),
       court_location = or_null (f_court_location data),
       judge_name = or_null (f_judge_name data),
       filing_date = f_filing_date data, closure_date = None \<rparr>"

definition placeholder_security_interest ::
    "uuid \<Rightarrow> new_case_form \<Rightarrow> uuid \<Rightarrow> uuid \<Rightarrow> instant \<Rightarrow> security_interest_row" where
  "placeholder_security_interest firmId data newCase_id new_id now =
     \<lparr> row_id = new_id, created_at = now, firm_id = firmId, case_id = newCase_id,
       si_type = ''Mortgage'', si_description = ''Primary mortgage on property'',
       property_address = None, recorded_date = None, amount = 0, lien_position = None,
       lender_id = f_client_id data,
       borrower_id =
         (if truthy (f_opposing_party_id data) then or_empty (f_opposing_party_id data)
          else f_client_id data),
       maturity_date = None, interest_rate = None, property_value = None \<rparr>"

definition onSubmit ::
    "(db_op \<Rightarrow> bool) \<Rightarrow> uuid option \<Rightarrow> new_case_form \<Rightarrow> uuid \<Rightarrow> uuid \<Rightarrow> instant \<Rightarrow> db
       \<Rightarrow> db \<times> effect" where
  "onSubmit ok firmId data case_new_id si_new_id now d =
     (if \<not> truthy firmId then (d, Nothing)
      else
        case insert_case ok (new_case_row (or_empty firmId) data case_new_id now) d of
          (d1, Some e) \<Rightarrow> (d1, Alert ''Failed to create case. Please try again.'')
        | (d1, None) \<Rightarrow>
            (if f_case_type data = ''foreclosure''
             then fst (insert_security_interest ok
                         (placeholder_security_interest (or_empty firmId) data case_new_id
                            si_new_id now) d1)
             else d1,
             Navigate (''/cases/'' @ case_new_id)))"

text \<open>\<open>handleSubmit(onSubmit)\<close>: the handler runs on data that passes the schema.\<close>

definition handleSubmit ::
    "(db_op \<Rightarrow> bool) \<Rightarrow> uuid option \<Rightarrow> new_case_form \<Rightarrow> uuid \<Rightarrow> uuid \<Rightarrow> instant \<Rightarrow> db
       \<Rightarrow> db \<times> effect" where
  "handleSubmit ok firmId data case_new_id si_new_id now d =
     (if newCaseSchema data then onSubmit ok firmId data case_new_id si_new_id now d
      else (d, Nothing))"


section \<open>Deleting a case (cases/[id]/page.tsx)\<close>

text \<open>
  \<open>handleDeleteCase\<close>. The four deletions in the child tables are awaited together, and
  their answers are not inspected; the deletion of the case is requested after all four
  have been answered. The four touch different tables, so the order in which the store
  serves them does not change the outcome; they are taken in the order of the source.
\<close>

definition handleDeleteCase ::
    "(db_op \<Rightarrow> bool) \<Rightarrow> case_row option \<Rightarrow> bool \<Rightarrow> db \<Rightarrow> db \<times> effect" where
  "handleDeleteCase ok caseData confirmed d =
     (case caseData of
        None \<Rightarrow> (d, Nothing)
      | Some c \<Rightarrow>
          if \<not> confirmed then (d, Nothing)
          else
            let d1 = fst (request_delete_of_case ok SecurityInterests (row_id c) d);
                d2 = fst (request_delete_of_case ok Documents (row_id c) d1);
                d3 = fst (request_delete_of_case ok Deadlines (row_id c) d2);
                d4 = fst (request_delete_of_case ok Financials (row_id c) d3)
            in case request_delete_case ok (row_id c) d4 of
                 (d5, Some e) \<Rightarrow> (d5, Alert ''Failed to delete the case. Please try again.'')
               | (d5, None) \<Rightarrow> (d5, Navigate ''/cases''))"

text \<open>Every row of a child table names a case that exists.\<close>

definition references_hold :: "db \<Rightarrow> bool" where
  "references_hold d =
     (set (map case_id (security_interests d)) \<subseteq> ids (cases d)
      \<and> set (map case_id (documents d)) \<subseteq> ids (cases d)
      \<and> set (map case_id (deadlines d)) \<subseteq> ids (cases d)
      \<and> set (map case_id (financials d)) \<subseteq> ids (cases d))"


section \<open>The case page (cases/[id]/page.tsx)\<close>

record case_page =
  caseData :: "case_row option"
  client :: "party_row option"
  opposingParty :: "party_row option"
  assignedUser :: "user_row option"
  securityInterests :: "(security_interest_row \<times> string \<times> string) list"
  shown_documents :: "(document_row \<times> string) list"
  shown_deadlines :: "(deadline_row \<times> string) list"
  shown_financials :: "(financial_row \<times> string \<times> string option) list"
  isLoading :: bool

definition initial_case_page :: case_page where
  "initial_case_page =
     \<lparr> caseData = None, client = None, opposingParty = None, assignedUser = None,
       securityInterests = [], shown_documents = [], shown_deadlines = [],
       shown_financials = [], isLoading = True \<rparr>"

definition fetchParties :: "db \<Rightarrow> case_row \<Rightarrow> case_page \<Rightarrow> case_page" where
  "fetchParties d c st =
     (let st1 = (if client_id c \<noteq> [] then st\<lparr>client := party_by_id d (client_id c)\<rparr> else st)
      in if truthy (opposing_party_id c)
         then st1\<lparr>opposingParty := party_by_id d (or_empty (opposing_party_id c))\<rparr>
         else st1)"

definition fetchAssignedUser :: "db \<Rightarrow> case_row \<Rightarrow> case_page \<Rightarrow> case_page" where
  "fetchAssignedUser d c st =
     (if truthy (assigned_to c)
      then st\<lparr>assignedUser := user_by_id d (or_empty (assigned_to c))\<rparr>
      else st)"

definition fetchSecurityInterests :: "db \<Rightarrow> case_row \<Rightarrow> case_page \<Rightarrow> case_page" where
  "fetchSecurityInterests d c st =
     (if toLowerCase (case_type c) = ''foreclosure''
      then st\<lparr>securityInterests :=
             map (\<lambda>interest.
                    (interest,
                     getPartyDisplayName (party_by_id d (lender_id interest)),
                     getPartyDisplayName (party_by_id d (borrower_id interest))))
               (run_query [\<lambda>r. case_id r = row_id c] (security_interests d))\<rparr>
      else st)"

definition uploaderName :: "db \<Rightarrow> uuid \<Rightarrow> string" where
  "uploaderName d uid = (case user_by_id d uid of None \<Rightarrow> ''Unknown'' | Some u \<Rightarrow> userName u)"

definition fetchDocuments_of_case :: "db \<Rightarrow> case_row \<Rightarrow> case_page \<Rightarrow> case_page" where
  "fetchDocuments_of_case d c st =
     st\<lparr>shown_documents :=
          map (\<lambda>x. (x, uploaderName d (uploaded_by x)))
            (order_desc created_at (run_query [\<lambda>r. case_id r = row_id c] (documents d)))\<rparr>"

definition assigneeName :: "db \<Rightarrow> uuid option \<Rightarrow> string" where
  "assigneeName d ref =
     (if truthy ref
      then (case user_by_id d (or_empty ref) of None \<Rightarrow> ''Unassigned'' | Some u \<Rightarrow> userName u)
      else ''Unassigned'')"

definition fetchDeadlines :: "db \<Rightarrow> case_row \<Rightarrow> case_page \<Rightarrow> case_page" where
  "fetchDeadlines d c st =
     st\<lparr>shown_deadlines :=
          map (\<lambda>x. (x, assigneeName d (dl_assigned_to x)))
            (order_asc due_date (run_query [\<lambda>r. case_id r = row_id c] (deadlines d)))\<rparr>"

definition fetchFinancials :: "db \<Rightarrow> case_row \<Rightarrow> case_page \<Rightarrow> case_page" where
  "fetchFinancials d c st =
     st\<lparr>shown_financials :=
          map (\<lambda>x. (x, uploaderName d (recorded_by x),
                     if truthy (party_id x)
                     then Some (getPartyDisplayName (party_by_id d (or_empty (party_id x))))
                     else None))
            (order_desc transaction_date
               (run_query [\<lambda>r. case_id r = row_id c] (financials d)))\<rparr>"

text \<open>
  \<open>fetchCaseData\<close>: the case is looked up by its id alone; an answer that is not exactly
  one row is an error, which sends the page to the case list before any of the six
  fetches of related data is started.
\<close>

definition fetchCaseData :: "db \<Rightarrow> uuid \<Rightarrow> case_page \<Rightarrow> case_page \<times> effect" where
  "fetchCaseData d caseId st =
     (case single (run_query [\<lambda>c. row_id c = caseId] (cases d)) of
        Inl e \<Rightarrow> (st\<lparr>isLoading := False\<rparr>, Navigate ''/cases'')
      | Inr c \<Rightarrow>
          ((fetchFinancials d c
              (fetchDeadlines d c
                 (fetchDocuments_of_case d c
                    (fetchSecurityInterests d c
                       (fetchAssignedUser d c
                          (fetchParties d c (st\<lparr>caseData := Some c\<rparr>)))))))
             \<lparr>isLoading := False\<rparr>,
           Nothing))"

text \<open>What the page renders from its state.\<close>

datatype rendered = Spinner | CaseNotFound | CaseDetails case_page

definition render :: "case_page \<Rightarrow> rendered" where
  "render st =
     (if isLoading st then Spinner
      else case caseData st of None \<Rightarrow> CaseNotFound | Some c \<Rightarrow> CaseDetails st)"


section \<open>Row level security (the schema)\<close>

text \<open>
  The schema enables row level security on all eight tables. With it enabled, a row is
  shown to the caller only if some policy of its table admits it; a table without a policy
  shows no row. A policy is a condition on the row that may consult the caller's identity
  and the store. The schema creates one policy, on the table of the firms, and announces
  further ones for the other tables without giving them: they are a parameter.
\<close>

type_synonym 'r policy = "db \<Rightarrow> uuid option \<Rightarrow> 'r \<Rightarrow> bool"

record policies =
  on_users :: "user_row policy list"
  on_parties :: "party_row policy list"
  on_cases :: "case_row policy list"
  on_security_interests :: "security_interest_row policy list"
  on_documents :: "document_row policy list"
  on_deadlines :: "deadline_row policy list"
  on_financials :: "financial_row policy list"

definition admitted :: "'r policy list \<Rightarrow> db \<Rightarrow> uuid option \<Rightarrow> 'r \<Rightarrow> bool" where
  "admitted ps d uid r = list_ex (\<lambda>p. p d uid r) ps"

text \<open>
  The policy \<open>Users can view their own firm\<close>: the caller's id is among the ids of the
  users of that firm, read from the users that are shown to the caller.
\<close>

definition users_can_view_their_own_firm :: "policies \<Rightarrow> firm_row policy" where
  "users_can_view_their_own_firm pol d uid f =
     (case uid of
        None \<Rightarrow> False
      | Some u \<Rightarrow>
          u \<in> set (map row_id
                 (run_query [\<lambda>x. firm_id x = firm_row_id f]
                    (filter (admitted (on_users pol) d uid) (users d)))))"

text \<open>The store as the data interface shows it to a caller.\<close>

definition rls_view :: "policies \<Rightarrow> uuid option \<Rightarrow> db \<Rightarrow> db" where
  "rls_view pol uid d =
     d\<lparr> firms := filter (admitted [users_can_view_their_own_firm pol] d uid) (firms d),
        users := filter (admitted (on_users pol) d uid) (users d),
        parties := filter (admitted (on_parties pol) d uid) (parties d),
        cases := filter (admitted (on_cases pol) d uid) (cases d),
        security_interests :=
          filter (admitted (on_security_interests pol) d uid) (security_interests d),
        documents := filter (admitted (on_documents pol) d uid) (documents d),
        deadlines := filter (admitted (on_deadlines pol) d uid) (deadlines d),
        financials := filter (admitted (on_financials pol) d uid) (financials d) \<rparr>"


text \<open>
  A policy that admits the rows of the caller's own firm, the firm being the one of the
  caller's row of \<open>users\<close>.
\<close>

definition own_firm :: "('a row_scheme) policy" where
  "own_firm d uid r = (fetchFirmId d uid = Some (firm_id r))"

definition own_firm_policies :: policies where
  "own_firm_policies =
     \<lparr> on_users = [own_firm], on_parties = [own_firm], on_cases = [own_firm],
       on_security_interests = [own_firm], on_documents = [own_firm],
       on_deadlines = [own_firm], on_financials = [own_firm] \<rparr>"

text \<open>
  The policies on the six firm-scoped tables admit, among the rows of the store, only rows
  of the caller's firm.
\<close>

definition tenant_scoped :: "policies \<Rightarrow> db \<Rightarrow> uuid option \<Rightarrow> bool" where
  "tenant_scoped pol d uid =
     (list_all (\<lambda>r. \<not> admitted (on_parties pol) d uid r \<or> fetchFirmId d uid = Some (firm_id r))
        (parties d)
      \<and> list_all (\<lambda>r. \<not> admitted (on_cases pol) d uid r \<or> fetchFirmId d uid = Some (firm_id r))
          (cases d)
      \<and> list_all (\<lambda>r. \<not> admitted (on_security_interests pol) d uid r
                       \<or> fetchFirmId d uid = Some (firm_id r))
          (security_interests d)
      \<and> list_all (\<lambda>r. \<not> admitted (on_documents pol) d uid r
                       \<or> fetchFirmId d uid = Some (firm_id r))
          (documents d)
      \<and> list_all (\<lambda>r. \<not> admitted (on_deadlines pol) d uid r
                       \<or> fetchFirmId d uid = Some (firm_id r))
          (deadlines d)
      \<and> list_all (\<lambda>r. \<not> admitted (on_financials pol) d uid r
                       \<or> fetchFirmId d uid = Some (firm_id r))
          (financials d))"





section \<open>The filters of the list views, in words\<close>




section \<open>Example data\<close>

text \<open>
  Two firms, each with a user, a client and cases: firm Acme Law with twelve cases of its
  client Jane Roe, the firm of Baker with one. The concrete instances of the theorems
  below are evaluated on this store.
\<close>

definition example_user :: "uuid \<Rightarrow> uuid \<Rightarrow> user_row" where
  "example_user uid firm =
     \<lparr> row_id = uid, created_at = 0, firm_id = firm,
       user_first_name = ''Ada'', user_last_name = ''Admin'' \<rparr>"

definition example_party :: "uuid \<Rightarrow> uuid \<Rightarrow> party_row" where
  "example_party pid firm =
     \<lparr> row_id = pid, created_at = 0, firm_id = firm,
       first_name = Some ''Jane'', last_name = Some ''Roe'', organization_name = None,
       is_client = True \<rparr>"

definition example_case :: "uuid \<Rightarrow> uuid \<Rightarrow> nat \<Rightarrow> case_row" where
  "example_case firm party n =
     \<lparr> row_id = ''case-'' @ firm @ ''-'' @ replicate n (CHR ''i''),
       created_at = int n, firm_id = firm,
       case_number = ''FC-'' @ replicate n (CHR ''i''), title = ''Roe Foreclosure'',
       case_type = ''foreclosure'', status = ''active'', description = None,
       assigned_to = None, client_id = party, opposing_party_id = None,
       court_name = None, court_location = None, judge_name = None,
       filing_date = None, closure_date = None \<rparr>"

definition example_document :: "uuid \<Rightarrow> uuid \<Rightarrow> uuid \<Rightarrow> nat \<Rightarrow> document_row" where
  "example_document firm cid uid n =
     \<lparr> row_id = ''doc-'' @ firm @ ''-'' @ replicate n (CHR ''i''),
       created_at = int n, firm_id = firm, case_id = cid,
       doc_name = ''Complaint '' @ replicate n (CHR ''i''), document_type = ''Pleading'',
       file_path = ''documents/complaint.pdf'', file_size = 2048, uploaded_by = uid,
       version = 1, is_template = False, related_party_id = None \<rparr>"

definition example_deadline :: "uuid \<Rightarrow> uuid \<Rightarrow> nat \<Rightarrow> instant \<Rightarrow> deadline_row" where
  "example_deadline firm cid n due =
     \<lparr> row_id = ''deadline-'' @ firm @ ''-'' @ replicate n (CHR ''i''),
       created_at = 0, firm_id = firm, case_id = cid,
       dl_title = ''File answer'', dl_description = None, due_date = due,
       priority = ''High'', dl_status = ''Pending'', dl_assigned_to = None,
       reminder_date = None \<rparr>"

text \<open>A party row that passes the check of the schema with an empty organization name.\<close>

definition nameless_party :: party_row where
  "nameless_party =
     \<lparr> row_id = ''party-nameless'', created_at = 0, firm_id = ''firm-acme'',
       first_name = None, last_name = None, organization_name = Some [],
       is_client = True \<rparr>"

text \<open>The form of the new case, with the case type left open.\<close>

definition example_form :: "string \<Rightarrow> new_case_form" where
  "example_form ty =
     \<lparr> f_title = ''Roe Foreclosure'', f_case_number = ''FC-001'', f_case_type = ty,
       f_status = ''active'', f_description = None, f_client_id = ''party-jane'',
       f_opposing_party_id = None, f_assigned_to = None, f_court_name = None,
       f_court_location = None, f_judge_name = None, f_filing_date = None \<rparr>"

definition example_db :: db where
  "example_db =
     \<lparr> firms = [\<lparr> firm_row_id = ''firm-acme'', firm_name = ''Acme Law'', is_active = True \<rparr>,
                \<lparr> firm_row_id = ''firm-baker'', firm_name = ''Baker'', is_active = True \<rparr>],
       users = [example_user ''user-acme'' ''firm-acme'', example_user ''user-baker'' ''firm-baker''],
       parties = [example_party ''party-jane'' ''firm-acme'', example_party ''party-john'' ''firm-baker''],
       cases = map (example_case ''firm-acme'' ''party-jane'') [1..<13]
               @ [example_case ''firm-baker'' ''party-john'' 1],
       security_interests = [],
       documents = map (example_document ''firm-acme'' ''case-firm-acme-i'' ''user-acme'') [1..<4]
                   @ [example_document ''firm-baker'' ''case-firm-baker-i'' ''user-baker'' 1],
       deadlines =
         [example_deadline ''firm-acme'' ''case-firm-acme-i'' 1 999,
          example_deadline ''firm-acme'' ''case-firm-acme-i'' 2 1000,
          example_deadline ''firm-acme'' ''case-firm-acme-i'' 3 (1000 + week),
          example_deadline ''firm-acme'' ''case-firm-acme-i'' 4 (1001 + week),
          example_deadline ''firm-baker'' ''case-firm-baker-i'' 1 1000],
       financials = [],
       journal = [] \<rparr>"


section \<open>Facts about strings\<close>

lemma startsWith_iff: "startsWith s sub \<longleftrightarrow> (\<exists>ss. s = sub @ ss)"
  by (induction s sub rule: startsWith.induct) auto

lemma includes_iff: "includes_str s sub \<longleftrightarrow> (\<exists>ps ss. s = ps @ sub @ ss)"
proof (induction s)
  case Nil
  show ?case by (cases sub) auto
next
  case (Cons x xs)
  show ?case
  proof
    assume "includes_str (x # xs) sub"
    then consider "startsWith (x # xs) sub" | "includes_str xs sub" by auto
    then show "\<exists>ps ss. x # xs = ps @ sub @ ss"
    proof cases
      case 1
      then obtain ss where "x # xs = sub @ ss" by (auto simp: startsWith_iff)
      then have "x # xs = [] @ sub @ ss" by simp
      then show ?thesis by blast
    next
      case 2
      then obtain ps ss where "xs = ps @ sub @ ss" using Cons.IH by auto
      then have "x # xs = (x # ps) @ sub @ ss" by simp
      then show ?thesis by blast
    qed
  next
    assume "\<exists>ps ss. x # xs = ps @ sub @ ss"
    then obtain ps ss where eq: "x # xs = ps @ sub @ ss" by blast
    show "includes_str (x # xs) sub"
    proof (cases ps)
      case Nil
      with eq have "startsWith (x # xs) sub" by (auto simp: startsWith_iff)
      then show ?thesis by simp
    next
      case (Cons p ps')
      with eq have "xs = ps' @ sub @ ss" by simp
      then have "includes_str xs sub" using Cons.IH by blast
      then show ?thesis by simp
    qed
  qed
qed

lemma toLowerCase_idem: "toLowerCase (toLowerCase s) = toLowerCase s"
proof -
  have "toLowerCase_char (toLowerCase_char c) = toLowerCase_char c" for c
    by (auto simp: toLowerCase_char_def Let_def)
  then show ?thesis by (simp add: toLowerCase_def)
qed

lemma set_trim: "set (trim s) \<subseteq> set s"
proof -
  have "set (trim s) \<subseteq> set (rev (dropWhile is_space s))"
    unfolding trim_def using set_dropWhileD by fastforce
  also have "\<dots> \<subseteq> set s"
    using set_dropWhileD by fastforce
  finally show ?thesis .
qed

lemma replies_distinct:
  "distinct [draft_reply, analysis_reply, summary_reply, deadlines_reply, default_reply]"
  by (simp add: draft_reply_def analysis_reply_def summary_reply_def deadlines_reply_def
      default_reply_def)


section \<open>Facts about queries and pages\<close>

lemma ceil_div_pos: "0 < k \<Longrightarrow> 0 < n \<Longrightarrow> ceil_div n k = (n - 1) div k + 1"
proof -
  assume k: "0 < k" and n: "0 < n"
  have "(n + k - 1) div k = ((n - 1) + k) div k" using n by simp
  also have "\<dots> = (n - 1) div k + 1" using k div_add_self2 [of k "n - 1"] by simp
  finally show ?thesis by (simp add: ceil_div_def)
qed

lemma ceil_div_zero: "0 < k \<Longrightarrow> ceil_div 0 k = 0"
  by (simp add: ceil_div_def)

lemma ceil_div_less: "0 < k \<Longrightarrow> 0 < n \<Longrightarrow> (ceil_div n k - 1) * k < n"
proof -
  assume k: "0 < k" and n: "0 < n"
  have "(n - 1) div k * k \<le> n - 1" by (rule div_times_less_eq_dividend)
  also have "n - 1 < n" using n by simp
  finally show ?thesis by (simp add: ceil_div_pos [OF k n])
qed

lemma ceil_div_ge: "0 < k \<Longrightarrow> n \<le> ceil_div n k * k"
proof (cases "n = 0")
  case True
  then show ?thesis by simp
next
  case False
  assume k: "0 < k"
  from False have n: "0 < n" by simp
  have a: "(n - 1) div k * k + (n - 1) mod k = n - 1" by (rule div_mult_mod_eq)
  have b: "(n - 1) mod k < k" using k by (rule mod_less_divisor)
  have "ceil_div n k * k = (n - 1) div k * k + k"
    by (simp add: ceil_div_pos [OF k n] add_mult_distrib)
  with a b n show ?thesis by linarith
qed






lemma page_range: "0 < k \<Longrightarrow> range_rows (i * k) (i * k + k - 1) xs = take k (drop (i * k) xs)"
  unfolding range_rows_def by simp





lemma pages_concat: "concat (map (\<lambda>i. take k (drop (i * k) xs)) [0..<n]) = take (n * k) xs"
proof (induction n)
  case 0 show ?case by simp
next
  case (Suc n)
  have "take (n * k + k) xs = take (n * k) xs @ take k (drop (n * k) xs)"
    by (rule take_add)
  with Suc show ?case by (simp add: add.commute)
qed

lemma pages_cover:
  assumes k: "0 < k"
  shows "concat (map (\<lambda>p. range_rows ((p - 1) * k) ((p - 1) * k + k - 1) xs)
           [1..<ceil_div (length xs) k + 1]) = xs"
proof -
  let ?n = "ceil_div (length xs) k"
  have "[1..<?n + 1] = map Suc [0..<?n]" by (simp add: map_Suc_upt)
  then have "concat (map (\<lambda>p. range_rows ((p - 1) * k) ((p - 1) * k + k - 1) xs) [1..<?n + 1])
      = concat (map (\<lambda>i. range_rows (i * k) (i * k + k - 1) xs) [0..<?n])"
    by (simp add: comp_def)
  also have "\<dots> = concat (map (\<lambda>i. take k (drop (i * k) xs)) [0..<?n])"
    unfolding page_range [OF k] ..
  also have "\<dots> = take (?n * k) xs" by (rule pages_concat)
  also have "\<dots> = xs" using ceil_div_ge [OF k, of "length xs"] by simp
  finally show ?thesis .
qed


section \<open>The assistant\<close>

text \<open>
  C9 (as amended). The reply is a function of the prompt alone, the same for a prompt and
  its lower-cased form, found by testing for keywords in a fixed order: the drafting reply
  for a prompt containing \<open>draft\<close> or \<open>write\<close>, else the analysis reply for \<open>analyze\<close> or
  \<open>review\<close>, else the summary reply for \<open>summarize\<close>, else the deadlines reply for
  \<open>deadline\<close> or \<open>timeline\<close>, else the default reply. On every prompt without \<open>write\<close>
  that is the reply of the table keyed on \<open>draft\<close> alone. The five replies differ.
\<close>

theorem fetchAIResponse_table:
  "fetchAIResponse prompt caseContext documentContext =
     (if (\<exists>ps ss. toLowerCase prompt = ps @ ''draft'' @ ss)
         \<or> (\<exists>ps ss. toLowerCase prompt = ps @ ''write'' @ ss) then draft_reply
      else if (\<exists>ps ss. toLowerCase prompt = ps @ ''analyze'' @ ss)
         \<or> (\<exists>ps ss. toLowerCase prompt = ps @ ''review'' @ ss) then analysis_reply
      else if (\<exists>ps ss. toLowerCase prompt = ps @ ''summarize'' @ ss) then summary_reply
      else if (\<exists>ps ss. toLowerCase prompt = ps @ ''deadline'' @ ss)
         \<or> (\<exists>ps ss. toLowerCase prompt = ps @ ''timeline'' @ ss) then deadlines_reply
      else default_reply)
   \<and> fetchAIResponse prompt caseContext documentContext =
       (if (\<exists>ps ss. toLowerCase prompt = ps @ ''write'' @ ss) then draft_reply
        else claimed_reply prompt)
   \<and> fetchAIResponse (toLowerCase prompt) caseContext documentContext
       = fetchAIResponse prompt caseContext documentContext
   \<and> fetchAIResponse prompt caseContext' documentContext'
       = fetchAIResponse prompt caseContext documentContext
   \<and> distinct [draft_reply, analysis_reply, summary_reply, deadlines_reply, default_reply]"
proof -
  have "fetchAIResponse (toLowerCase prompt) caseContext documentContext
       = fetchAIResponse prompt caseContext documentContext"
    by (simp add: fetchAIResponse_def toLowerCase_idem)
  moreover have "fetchAIResponse prompt caseContext' documentContext'
       = fetchAIResponse prompt caseContext documentContext"
    by (simp add: fetchAIResponse_def)
  moreover have "fetchAIResponse prompt caseContext documentContext =
       (if (\<exists>ps ss. toLowerCase prompt = ps @ ''write'' @ ss) then draft_reply
        else claimed_reply prompt)"
    by (simp add: fetchAIResponse_def claimed_reply_def includes_iff)
  moreover have "fetchAIResponse prompt caseContext documentContext =
     (if (\<exists>ps ss. toLowerCase prompt = ps @ ''draft'' @ ss)
         \<or> (\<exists>ps ss. toLowerCase prompt = ps @ ''write'' @ ss) then draft_reply
      else if (\<exists>ps ss. toLowerCase prompt = ps @ ''analyze'' @ ss)
         \<or> (\<exists>ps ss. toLowerCase prompt = ps @ ''review'' @ ss) then analysis_reply
      else if (\<exists>ps ss. toLowerCase prompt = ps @ ''summarize'' @ ss) then summary_reply
      else if (\<exists>ps ss. toLowerCase prompt = ps @ ''deadline'' @ ss)
         \<or> (\<exists>ps ss. toLowerCase prompt = ps @ ''timeline'' @ ss) then deadlines_reply
      else default_reply)"
    by (simp only: fetchAIResponse_def includes_iff)
  ultimately show ?thesis using replies_distinct by blast
qed

theorem fetchAIResponse_table_witness:
  "fetchAIResponse ''Please REVIEW the lease'' (None :: unit option) None = analysis_reply
   \<and> fetchAIResponse ''Write and review a letter'' (None :: unit option) None = draft_reply"
proof -
  have a: "\<not> includes_str (toLowerCase ''Please REVIEW the lease'') ''write''" by code_simp
  have b: "claimed_reply ''Please REVIEW the lease'' = analysis_reply"
    unfolding claimed_reply_def by code_simp
  have c: "includes_str (toLowerCase ''Write and review a letter'') ''write''" by code_simp
  note t1 = fetchAIResponse_table [of "''Please REVIEW the lease''" "None :: unit option" None
      "None :: unit option" None]
  note t2 = fetchAIResponse_table [of "''Write and review a letter''" "None :: unit option" None
      "None :: unit option" None]
  from t1 have "fetchAIResponse ''Please REVIEW the lease'' (None :: unit option) None =
       (if (\<exists>ps ss. toLowerCase ''Please REVIEW the lease'' = ps @ ''write'' @ ss) then draft_reply
        else claimed_reply ''Please REVIEW the lease'')"
    by (elim conjE)
  with a b have 1: "fetchAIResponse ''Please REVIEW the lease'' (None :: unit option) None
      = analysis_reply"
    by (simp only: includes_iff [symmetric] if_False)
  from t2 have "fetchAIResponse ''Write and review a letter'' (None :: unit option) None =
       (if (\<exists>ps ss. toLowerCase ''Write and review a letter'' = ps @ ''write'' @ ss) then draft_reply
        else claimed_reply ''Write and review a letter'')"
    by (elim conjE)
  with c have 2: "fetchAIResponse ''Write and review a letter'' (None :: unit option) None
      = draft_reply"
    by (simp only: includes_iff [symmetric] if_True)
  from 1 2 show ?thesis by (rule conjI)
qed

theorem fetchAIResponse_write_counterexample:
  "fetchAIResponse ''write a memo'' (None :: unit option) None \<noteq> claimed_reply ''write a memo''"
proof -
  have "fetchAIResponse ''write a memo'' (None :: unit option) None = draft_reply"
    unfolding fetchAIResponse_def by code_simp
  moreover have "claimed_reply ''write a memo'' = default_reply"
    unfolding claimed_reply_def by code_simp
  ultimately show ?thesis using replies_distinct by simp
qed


section \<open>The list views\<close>


lemma fetchCases_counted_parts:
  "filters (fetchCases_counted f s st ty) = fetchCases_filters f s st ty"
  "filters (fetchCases_query f s st ty) = fetchCases_filters f s st ty"
  "columns (fetchCases_counted f s st ty) = [''id'']"
  "count_wanted (fetchCases_counted f s st ty) = False"
  by (simp_all add: fetchCases_counted_def fetchCases_query_def select_on_filtered_def
      with_filters_def from_select_def)

lemma fetchDocuments_counted_parts:
  "filters (fetchDocuments_counted f s ty c) = fetchDocuments_filters f s ty c"
  "filters (fetchDocuments_query f s ty c) = fetchDocuments_filters f s ty c"
  "columns (fetchDocuments_counted f s ty c) = [''id'']"
  "count_wanted (fetchDocuments_counted f s ty c) = False"
  by (simp_all add: fetchDocuments_counted_def fetchDocuments_query_def select_on_filtered_def
      with_filters_def from_select_def)











text \<open>
  The count that \<open>fetchCases\<close> and \<open>fetchDocuments\<close> receive: none, for every store and
  every setting of the filters, so that the number of pages is set to 0.
\<close>

lemma count_is_absent:
  "fetchCases_count d f s st ty = None"
  "totalPages (fetchCases d f s st ty p) = 0"
  "fetchDocuments_count d f ds dty dc = None"
  "doc_totalPages (fetchDocuments d f ds dty dc p) = 0"
  by (simp_all add: fetchCases_count_def fetchDocuments_count_def answered_count_def
      fetchCases_counted_parts fetchDocuments_counted_parts fetchCases_def fetchDocuments_def
      count_or_0_def ceil_div_def itemsPerPage_def)

text \<open>Where the options are passed to \<open>from(table).select\<close> the count is the exact one.\<close>

lemma count_of_from_select:
  "answered_count (with_filters ps (from_select cols count_exact_head)) rows
     = Some (length (run_query ps rows))"
  by (simp add: answered_count_def with_filters_def from_select_def count_exact_def)

text \<open>
  C7. The case list of firm Acme Law without filters, and its document list: twelve cases
  and three documents match and the first page shows ten and three of them, while the
  count in the answer is absent and the number of pages is 0 in both views. The same
  options on \<open>from(table).select\<close>, as the dashboard passes them, give the count 12.
\<close>

theorem count_not_requested:
  "length (fetchCases_matching example_db ''firm-acme'' [] ''all'' ''all'') = 12
   \<and> length (shown (fetchCases example_db ''firm-acme'' [] ''all'' ''all'' 1)) = 10
   \<and> fetchCases_count example_db ''firm-acme'' [] ''all'' ''all'' = None
   \<and> totalPages (fetchCases example_db ''firm-acme'' [] ''all'' ''all'' 1) = 0
   \<and> length (fetchDocuments_matching example_db ''firm-acme'' [] ''all'' ''all'') = 3
   \<and> length (doc_shown (fetchDocuments example_db ''firm-acme'' [] ''all'' ''all'' 1)) = 3
   \<and> fetchDocuments_count example_db ''firm-acme'' [] ''all'' ''all'' = None
   \<and> doc_totalPages (fetchDocuments example_db ''firm-acme'' [] ''all'' ''all'' 1) = 0
   \<and> answered_count
        (with_filters (fetchCases_filters ''firm-acme'' [] ''all'' ''all'')
           (from_select [''id''] count_exact_head))
        (cases example_db) = Some 12"
  by code_simp

text \<open>
  The footer as a function of the page state: its total is the number of pages times the
  page size, which for \<open>\<lceil>N/10\<rceil>\<close> pages is not \<open>N\<close> unless \<open>N\<close> is a multiple of ten. After
  \<open>fetchCases\<close> the number of pages is 0 and there is no footer.
\<close>

lemma footer_total_rule:
  "footer_total page = Some t \<Longrightarrow> t = totalPages page * itemsPerPage \<and> 1 < totalPages page"
  by (simp add: footer_total_def split: if_splits)

lemma footer_total_of_true_count:
  assumes "\<not> 10 dvd n"
  shows "footer_total \<lparr> totalPages = ceil_div n itemsPerPage, shown = xs \<rparr> \<noteq> Some n"
proof
  assume "footer_total \<lparr> totalPages = ceil_div n itemsPerPage, shown = xs \<rparr> = Some n"
  then have "n = ceil_div n itemsPerPage * itemsPerPage"
    using footer_total_rule by fastforce
  then have "10 dvd n" by (metis dvd_triv_right itemsPerPage_def)
  with assms show False by simp
qed

lemma footer_total_fetchCases: "footer_total (fetchCases d f s st ty p) = None"
  by (simp add: footer_total_def count_is_absent)

text \<open>
  C8. The case list of firm Acme Law without filters, as it opens on its first page:
  twelve cases match and ten are shown; the number of pages is 0 and no footer is
  rendered, on this page and on any other. With the two pages that twelve rows make, the
  footer of the same page would show 20.
\<close>

theorem footer_not_rendered:
  "length (fetchCases_matching example_db ''firm-acme'' [] ''all'' ''all'') = 12
   \<and> length (shown (fetchCases example_db ''firm-acme'' [] ''all'' ''all'' 1)) = 10
   \<and> totalPages (fetchCases example_db ''firm-acme'' [] ''all'' ''all'' 1) = 0
   \<and> footer_total (fetchCases example_db ''firm-acme'' [] ''all'' ''all'' 1) = None
   \<and> footer_total (fetchCases example_db ''firm-acme'' [] ''all'' ''all'' 2) = None
   \<and> footer_total
        \<lparr> totalPages = ceil_div 12 itemsPerPage,
          shown = shown (fetchCases example_db ''firm-acme'' [] ''all'' ''all'' 1) \<rparr> = Some 20"
  by code_simp


section \<open>Display names of parties\<close>

lemma trim_space: "trim '' '' = []"
  by (simp add: trim_def is_space_def)

lemma falsy_or_empty: "\<not> truthy v \<Longrightarrow> or_empty v = []"
  by (cases v) auto

text \<open>
  What \<open>getPartyDisplayName\<close> does: the fallback \<open>Unknown\<close> when no party row was found;
  for a party row the organization name when that is not empty, and otherwise the first and
  last name joined by a space, an absent part taken as empty and white space trimmed at both
  ends. Every character of the result is a character of a stored field or the joining
  space. It agrees with the rule of the specification wherever that rule does not reach its
  fallback.
\<close>

lemma getPartyDisplayName_rule:
  "getPartyDisplayName None = ''Unknown''
   \<and> (truthy (organization_name p)
        \<longrightarrow> getPartyDisplayName (Some p) = or_empty (organization_name p))
   \<and> (\<not> truthy (organization_name p)
        \<longrightarrow> getPartyDisplayName (Some p)
              = trim (or_empty (first_name p) @ '' '' @ or_empty (last_name p)))
   \<and> (\<not> truthy (organization_name p) \<and> \<not> truthy (first_name p) \<and> \<not> truthy (last_name p)
        \<longrightarrow> getPartyDisplayName (Some p) = [])
   \<and> set (getPartyDisplayName (Some p))
        \<subseteq> set (or_empty (organization_name p)) \<union> set (or_empty (first_name p))
           \<union> set (or_empty (last_name p)) \<union> {CHR '' ''}
   \<and> (CHR ''n'' \<notin> set (or_empty (organization_name p)) \<union> set (or_empty (first_name p))
           \<union> set (or_empty (last_name p))
        \<longrightarrow> getPartyDisplayName (Some p) \<noteq> ''null null''
            \<and> getPartyDisplayName (Some p) \<noteq> ''undefined undefined'')"
proof -
  have sub: "set (getPartyDisplayName (Some p))
        \<subseteq> set (or_empty (organization_name p)) \<union> set (or_empty (first_name p))
           \<union> set (or_empty (last_name p)) \<union> {CHR '' ''}"
  proof (cases "truthy (organization_name p)")
    case True
    then show ?thesis by (auto simp: getPartyDisplayName_def)
  next
    case False
    have "set (trim (or_empty (first_name p) @ '' '' @ or_empty (last_name p)))
        \<subseteq> set (or_empty (first_name p) @ '' '' @ or_empty (last_name p))"
      by (rule set_trim)
    with False show ?thesis by (auto simp: getPartyDisplayName_def)
  qed
  have nn: "getPartyDisplayName (Some p) \<noteq> ''null null''
            \<and> getPartyDisplayName (Some p) \<noteq> ''undefined undefined''"
    if "CHR ''n'' \<notin> set (or_empty (organization_name p)) \<union> set (or_empty (first_name p))
           \<union> set (or_empty (last_name p))"
  proof -
    from that sub have "CHR ''n'' \<notin> set (getPartyDisplayName (Some p))" by auto
    then show ?thesis by auto
  qed
  have empty: "getPartyDisplayName (Some p) = []"
    if "\<not> truthy (organization_name p) \<and> \<not> truthy (first_name p) \<and> \<not> truthy (last_name p)"
    using that by (simp add: getPartyDisplayName_def falsy_or_empty trim_space)
  from sub nn empty show ?thesis by (simp add: getPartyDisplayName_def)
qed

lemma getPartyDisplayName_agrees:
  "getPartyDisplayName (Some p) \<noteq> [] \<Longrightarrow>
     getPartyDisplayName (Some p) = claimed_display_name fallback p"
  by (simp add: getPartyDisplayName_def claimed_display_name_def split: if_splits)

lemma getPartyDisplayName_examples:
  "getPartyDisplayName (Some (example_party ''party-jane'' ''firm-acme'')) = ''Jane Roe''
   \<and> getPartyDisplayName
        (Some ((example_party ''party-bank'' ''firm-acme'')\<lparr>organization_name := Some ''Acme Bank''\<rparr>))
       = ''Acme Bank''"
  by (simp add: getPartyDisplayName_def example_party_def trim_def is_space_def)

text \<open>
  C3. A party row without a name: an empty organization name and no name parts. The rule
  of the specification gives the fallback literal on it; \<open>getPartyDisplayName\<close> gives the
  empty string, also when the organization name is absent altogether, and the in-line
  expression of the dashboard gives \<open>null null\<close>.
\<close>

theorem display_name_of_nameless_party:
  "claimed_display_name ''Unknown'' nameless_party = ''Unknown''
   \<and> getPartyDisplayName (Some nameless_party) = []
   \<and> getPartyDisplayName (Some (nameless_party\<lparr>organization_name := None\<rparr>)) = []
   \<and> claimed_display_name ''Unknown Client'' nameless_party = ''Unknown Client''
   \<and> clientName (Some nameless_party) = ''null null''"
  by (simp add: getPartyDisplayName_def clientName_def claimed_display_name_def
      nameless_party_def trim_space)


section \<open>The dashboard's counts\<close>

lemma count_exact_filter: "count_exact q rows = length (filter (\<lambda>r. list_all (\<lambda>p. p r) q) rows)"
  by (simp add: count_exact_def run_query_def)

text \<open>
  C5. For a caller whose firm is resolved, the dashboard's number of upcoming deadlines is
  the number of deadline rows of that firm whose due date lies between the clock reading
  taken for the lower bound and seven days after the one taken for the upper bound, both
  bounds included; with one instant \<open>now\<close> for both readings that is the interval from
  \<open>now\<close> to \<open>now\<close> plus seven days.
\<close>

theorem upcomingDeadlines_count:
  assumes "fetchFirmId d user = Some firmId"
  shows "upcomingDeadlines (stats (fetchUserAndData d user now_lower now_upper))
         = length (filter (\<lambda>x. firm_id x = firmId
                              \<and> now_lower \<le> due_date x
                              \<and> due_date x \<le> now_upper + 7 * 24 * 60 * 60 * 1000)
                     (deadlines d))"
  using assms by (simp add: fetchUserAndData_def count_exact_filter week_def)

theorem upcomingDeadlines_count_witness:
  "fetchFirmId example_db (Some ''user-acme'') = Some ''firm-acme''
   \<and> upcomingDeadlines (stats (fetchUserAndData example_db (Some ''user-acme'') 1000 1000)) = 2
   \<and> length (filter (\<lambda>x. firm_id x = ''firm-acme'' \<and> 1000 \<le> due_date x
                          \<and> due_date x \<le> 1000 + 7 * 24 * 60 * 60 * 1000)
               (deadlines example_db)) = 2"
proof -
  have f: "fetchFirmId example_db (Some ''user-acme'') = Some ''firm-acme''" by code_simp
  have n: "length (filter (\<lambda>x. firm_id x = ''firm-acme'' \<and> 1000 \<le> due_date x
                          \<and> due_date x \<le> 1000 + 7 * 24 * 60 * 60 * 1000)
               (deadlines example_db)) = 2" by code_simp
  from f n upcomingDeadlines_count [OF f, of 1000 1000] show ?thesis by simp
qed


section \<open>Deleting a case\<close>

lemma cases_after_child_request [simp]:
  "cases (fst (request_delete_of_case ok t cid d)) = cases d"
  by (cases t) (simp_all add: request_delete_of_case_def logged_def)

lemma journal_after_child_request [simp]:
  "journal (fst (request_delete_of_case ok t cid d)) = journal d @ [DeleteOfCase t cid]"
  by (cases t) (simp_all add: request_delete_of_case_def logged_def)

lemma journal_after_case_request [simp]:
  "journal (fst (request_delete_case ok cid d)) = journal d @ [DeleteCase cid]"
  by (simp add: request_delete_case_def logged_def delete_case_def)

lemma children_after_child_request:
  "set (security_interests (fst (request_delete_of_case ok t cid d))) \<subseteq> set (security_interests d)"
  "set (documents (fst (request_delete_of_case ok t cid d))) \<subseteq> set (documents d)"
  "set (deadlines (fst (request_delete_of_case ok t cid d))) \<subseteq> set (deadlines d)"
  "set (financials (fst (request_delete_of_case ok t cid d))) \<subseteq> set (financials d)"
  by (cases t; simp add: request_delete_of_case_def logged_def)+

lemma referenced_after_child_request:
  "referenced x (fst (request_delete_of_case ok t cid d)) \<Longrightarrow> referenced x d"
  using children_after_child_request [of ok t cid d]
  unfolding referenced_def by auto

lemma not_referenced_by_absent_case:
  "references_hold d \<Longrightarrow> cid \<notin> ids (cases d) \<Longrightarrow> \<not> referenced cid d"
  unfolding references_hold_def referenced_def by auto

lemma run_query_no_child:
  "cid \<notin> set (map case_id rows) \<Longrightarrow> run_query [\<lambda>r. case_id r = cid] rows = []"
  by (auto simp: run_query_def filter_empty_conv)

lemma all_children_deleted:
  assumes "\<forall>op. ok op"
  shows "\<not> referenced cid
           (fst (request_delete_of_case ok Financials cid
             (fst (request_delete_of_case ok Deadlines cid
               (fst (request_delete_of_case ok Documents cid
                 (fst (request_delete_of_case ok SecurityInterests cid d)))))))) "
  using assms by (auto simp: request_delete_of_case_def logged_def referenced_def)


lemma delete_case_request_None:
  assumes "request_delete_case ok cid d = (d', None)"
  shows "\<not> (cid \<in> ids (cases d) \<and> referenced cid d)"
    and "cases d' = filter (\<lambda>r. row_id r \<noteq> cid) (cases d)"
    and "security_interests d' = security_interests d"
    and "documents d' = documents d"
    and "deadlines d' = deadlines d"
    and "financials d' = financials d"
  using assms
  by (auto simp: request_delete_case_def delete_case_def logged_def split: if_splits)

text \<open>
  C4. Deleting a case from the case page. When every request is answered the handler ends
  on the case list. Whenever it ends there, on a store whose child rows all name existing
  cases, a query of each of the four child tables by the deleted case's id gives no row
  and the case row is gone, even if a child deletion was not answered. In every run the
  four child deletions are awaited, in the journal, before the deletion of the case.
\<close>

theorem handleDeleteCase_cascade:
  "((\<forall>op. ok op) \<longrightarrow> snd (handleDeleteCase ok (Some c) True d) = Navigate ''/cases'')
   \<and> (references_hold d \<and> snd (handleDeleteCase ok (Some c) True d) = Navigate ''/cases''
        \<longrightarrow> run_query [\<lambda>r. case_id r = row_id c]
               (security_interests (fst (handleDeleteCase ok (Some c) True d))) = []
          \<and> run_query [\<lambda>r. case_id r = row_id c]
               (documents (fst (handleDeleteCase ok (Some c) True d))) = []
          \<and> run_query [\<lambda>r. case_id r = row_id c]
               (deadlines (fst (handleDeleteCase ok (Some c) True d))) = []
          \<and> run_query [\<lambda>r. case_id r = row_id c]
               (financials (fst (handleDeleteCase ok (Some c) True d))) = []
          \<and> run_query [\<lambda>r. row_id r = row_id c]
               (cases (fst (handleDeleteCase ok (Some c) True d))) = [])
   \<and> journal (fst (handleDeleteCase ok (Some c) True d))
       = journal d @ [DeleteOfCase SecurityInterests (row_id c), DeleteOfCase Documents (row_id c),
                      DeleteOfCase Deadlines (row_id c), DeleteOfCase Financials (row_id c),
                      DeleteCase (row_id c)]"
proof -
  define cid where "cid = row_id c"
  define d1 where "d1 = fst (request_delete_of_case ok SecurityInterests cid d)"
  define d2 where "d2 = fst (request_delete_of_case ok Documents cid d1)"
  define d3 where "d3 = fst (request_delete_of_case ok Deadlines cid d2)"
  define d4 where "d4 = fst (request_delete_of_case ok Financials cid d3)"
  define res where "res = request_delete_case ok cid d4"
  have run: "handleDeleteCase ok (Some c) True d =
      (case res of (d5, Some e) \<Rightarrow> (d5, Alert ''Failed to delete the case. Please try again.'')
                 | (d5, None) \<Rightarrow> (d5, Navigate ''/cases''))"
    by (simp add: handleDeleteCase_def Let_def cid_def d1_def d2_def d3_def d4_def res_def)
  have fst_run: "fst (handleDeleteCase ok (Some c) True d) = fst res"
    unfolding run by (cases res) (auto split: option.splits)
  have nav_iff: "snd (handleDeleteCase ok (Some c) True d) = Navigate ''/cases'' \<longleftrightarrow> snd res = None"
    unfolding run by (cases res) (auto split: option.splits)
  have cases4: "cases d4 = cases d"
    by (simp add: d4_def d3_def d2_def d1_def)
  have ref4: "referenced x d4 \<Longrightarrow> referenced x d" for x
    unfolding d4_def d3_def d2_def d1_def
    by (blast dest: referenced_after_child_request)
  have A: "snd (handleDeleteCase ok (Some c) True d) = Navigate ''/cases''" if all: "\<forall>op. ok op"
  proof -
    have "\<not> referenced cid d4"
      unfolding d4_def d3_def d2_def d1_def by (rule all_children_deleted [OF all])
    then have "snd res = None"
      using all by (simp add: res_def request_delete_case_def delete_case_def)
    then show ?thesis by (simp add: nav_iff)
  qed
  have B: "run_query [\<lambda>r. case_id r = cid] (security_interests (fst res)) = []
      \<and> run_query [\<lambda>r. case_id r = cid] (documents (fst res)) = []
      \<and> run_query [\<lambda>r. case_id r = cid] (deadlines (fst res)) = []
      \<and> run_query [\<lambda>r. case_id r = cid] (financials (fst res)) = []
      \<and> run_query [\<lambda>r. row_id r = cid] (cases (fst res)) = []"
    if refs: "references_hold d" and nav: "snd res = None"
  proof -
    from nav have eq: "request_delete_case ok cid d4 = (fst res, None)"
      by (simp add: res_def prod_eq_iff)
    note facts = delete_case_request_None [OF eq]
    have "\<not> referenced cid d4"
    proof (cases "cid \<in> ids (cases d4)")
      case True
      with facts(1) show ?thesis by simp
    next
      case False
      then have "cid \<notin> ids (cases d)" by (simp add: cases4)
      then have "\<not> referenced cid d" using refs by (rule not_referenced_by_absent_case [rotated])
      then show ?thesis using ref4 by blast
    qed
    then have none: "cid \<notin> set (map case_id (security_interests d4))"
      "cid \<notin> set (map case_id (documents d4))"
      "cid \<notin> set (map case_id (deadlines d4))"
      "cid \<notin> set (map case_id (financials d4))"
      by (simp_all add: referenced_def)
    have "run_query [\<lambda>r. row_id r = cid] (cases (fst res)) = []"
      by (auto simp: facts(2) run_query_def filter_empty_conv)
    with none show ?thesis
      by (simp add: facts(3-6) run_query_no_child)
  qed
  have C: "journal (fst res) = journal d @ [DeleteOfCase SecurityInterests cid, DeleteOfCase Documents cid,
                      DeleteOfCase Deadlines cid, DeleteOfCase Financials cid, DeleteCase cid]"
    by (simp add: res_def d4_def d3_def d2_def d1_def)
  from A B C show ?thesis
    unfolding fst_run nav_iff cid_def [symmetric] by blast
qed


theorem handleDeleteCase_cascade_witness:
  "references_hold example_db
   \<and> snd (handleDeleteCase (\<lambda>op. True) (Some (example_case ''firm-acme'' ''party-jane'' 1)) True
            example_db) = Navigate ''/cases''
   \<and> run_query [\<lambda>r. case_id r = ''case-firm-acme-i'']
        (documents (fst (handleDeleteCase (\<lambda>op. True)
           (Some (example_case ''firm-acme'' ''party-jane'' 1)) True example_db))) = []
   \<and> run_query [\<lambda>r. case_id r = ''case-firm-acme-i'']
        (deadlines (fst (handleDeleteCase (\<lambda>op. True)
           (Some (example_case ''firm-acme'' ''party-jane'' 1)) True example_db))) = []
   \<and> run_query [\<lambda>r. row_id r = ''case-firm-acme-i'']
        (cases (fst (handleDeleteCase (\<lambda>op. True)
           (Some (example_case ''firm-acme'' ''party-jane'' 1)) True example_db))) = []
   \<and> length (run_query [\<lambda>r. case_id r = ''case-firm-acme-i''] (documents example_db)) = 3"
proof -
  have r: "references_hold example_db" by code_simp
  have i: "row_id (example_case ''firm-acme'' ''party-jane'' 1) = ''case-firm-acme-i''"
    by code_simp
  have n: "length (run_query [\<lambda>r. case_id r = ''case-firm-acme-i''] (documents example_db)) = 3"
    by code_simp
  from r n
    handleDeleteCase_cascade [of "\<lambda>op. True" "example_case ''firm-acme'' ''party-jane'' 1" example_db]
  show ?thesis unfolding i by simp
qed

lemma handleDeleteCase_declined:
  "handleDeleteCase ok None confirmed d = (d, Nothing)"
  "handleDeleteCase ok shownCase False d = (d, Nothing)"
  by (simp_all add: handleDeleteCase_def split: option.splits)


section \<open>Creating a case\<close>

lemma onSubmit_other_type:
  "f_case_type data \<noteq> ''foreclosure''
   \<Longrightarrow> security_interests (fst (onSubmit ok firmId data cid sid now d)) = security_interests d"
  by (auto simp: onSubmit_def insert_case_def logged_def split: prod.splits option.splits)

lemma onSubmit_foreclosure:
  assumes "truthy firmId" and "\<forall>op. ok op" and "f_case_type data = ''foreclosure''"
    and "f_client_id data \<in> ids (parties d)"
    and firm: "or_empty firmId \<in> set (map firm_row_id (firms d))"
    and "exists_or_null (or_null (f_opposing_party_id data)) (ids (parties d))"
    and "exists_or_null (or_null (f_assigned_to data)) (ids (users d))"
  shows "security_interests (fst (onSubmit ok firmId data cid sid now d))
         = security_interests d
           @ [placeholder_security_interest (or_empty firmId) data cid sid now]"
    and "snd (onSubmit ok firmId data cid sid now d) = Navigate (''/cases/'' @ cid)"
proof -
  let ?r = "new_case_row (or_empty firmId) data cid now"
  let ?d1 = "logged (InsertCase cid) (d\<lparr>cases := cases d @ [?r]\<rparr>)"
  have ins: "insert_case ok ?r d = (?d1, None)"
    using assms by (simp add: insert_case_def new_case_row_def)
  have b: "borrower_id (placeholder_security_interest (or_empty firmId) data cid sid now)
      \<in> ids (parties d)"
    using assms(4,6)
    by (cases "f_opposing_party_id data")
       (auto simp: placeholder_security_interest_def or_null_def exists_or_null_def)
  have si: "insert_security_interest ok
      (placeholder_security_interest (or_empty firmId) data cid sid now) ?d1
     = (logged (InsertSecurityInterest sid)
          (?d1\<lparr>security_interests := security_interests ?d1
              @ [placeholder_security_interest (or_empty firmId) data cid sid now]\<rparr>), None)"
    using assms(2,4) b firm
    by (simp add: insert_security_interest_def placeholder_security_interest_def logged_def
        ids_def new_case_row_def)
  show "security_interests (fst (onSubmit ok firmId data cid sid now d))
         = security_interests d
           @ [placeholder_security_interest (or_empty firmId) data cid sid now]"
  proof -
    from si have "security_interests (fst (insert_security_interest ok
        (placeholder_security_interest (or_empty firmId) data cid sid now) ?d1))
      = security_interests d @ [placeholder_security_interest (or_empty firmId) data cid sid now]"
      by (simp add: logged_def)
    then show ?thesis using assms(1,3) by (simp add: onSubmit_def ins)
  qed
  show "snd (onSubmit ok firmId data cid sid now d) = Navigate (''/cases/'' @ cid)"
    using assms(1,3) by (simp add: onSubmit_def ins)
qed





text \<open>
  The case and its placeholder are two requests, and the answer to the second is not
  inspected: when that request fails, the page still goes to the new case, which then has
  no placeholder.
\<close>

lemma onSubmit_placeholder_unanswered:
  "snd (onSubmit (\<lambda>op. op \<noteq> InsertSecurityInterest ''si-new'') (Some ''firm-acme'')
          (example_form ''foreclosure'') ''case-new'' ''si-new'' 5 example_db)
     = Navigate ''/cases/case-new''
   \<and> map row_id (run_query [\<lambda>c. row_id c = ''case-new'']
        (cases (fst (onSubmit (\<lambda>op. op \<noteq> InsertSecurityInterest ''si-new'')
          (Some ''firm-acme'') (example_form ''foreclosure'') ''case-new'' ''si-new'' 5
          example_db)))) = [''case-new'']
   \<and> security_interests (fst (onSubmit (\<lambda>op. op \<noteq> InsertSecurityInterest ''si-new'')
        (Some ''firm-acme'') (example_form ''foreclosure'') ''case-new'' ''si-new'' 5
        example_db)) = []"
  by code_simp

text \<open>
  The comparison in \<open>onSubmit\<close> is exact. A type written with a capital letter is not among
  the values of the select; if the handler were given it, the case would be created
  without a placeholder.
\<close>

lemma onSubmit_compares_exactly:
  "''Foreclosure'' \<notin> set case_type_options
   \<and> toLowerCase (f_case_type (example_form ''Foreclosure'')) = ''foreclosure''
   \<and> newCaseSchema (example_form ''Foreclosure'')
   \<and> snd (handleSubmit (\<lambda>op. True) (Some ''firm-acme'') (example_form ''Foreclosure'')
            ''case-new'' ''si-new'' 5 example_db) = Navigate ''/cases/case-new''
   \<and> map case_type (run_query [\<lambda>c. row_id c = ''case-new'']
        (cases (fst (handleSubmit (\<lambda>op. True) (Some ''firm-acme'') (example_form ''Foreclosure'')
            ''case-new'' ''si-new'' 5 example_db)))) = [''Foreclosure'']
   \<and> run_query [\<lambda>r. case_id r = ''case-new'']
        (security_interests (fst (handleSubmit (\<lambda>op. True) (Some ''firm-acme'')
            (example_form ''Foreclosure'') ''case-new'' ''si-new'' 5 example_db))) = []
   \<and> map (\<lambda>r. (amount r, si_description r, lender_id r, borrower_id r))
        (run_query [\<lambda>r. case_id r = ''case-new'']
          (security_interests (fst (handleSubmit (\<lambda>op. True) (Some ''firm-acme'')
            (example_form ''foreclosure'') ''case-new'' ''si-new'' 5 example_db))))
       = [(0, ''Primary mortgage on property'', ''party-jane'', ''party-jane'')]"
  by code_simp


section \<open>The case page and the caller's firm\<close>


lemma single_Nil: "single [] = Inl NotSingleRow"
  by simp






text \<open>
  C10. When the lookup of the case by its id gives no row, \<open>fetchCaseData\<close> sends the page
  to the case list and changes nothing of the page state but the loading flag: no related
  data is fetched, and from the initial state the page renders as not found. The lookup
  gives no row for an id that no case has, and, under policies that admit only rows of the
  caller's firm, for the id of a case of another firm.
\<close>

theorem fetchCaseData_not_found:
  "(run_query [\<lambda>c. row_id c = caseId] (cases d) = []
      \<longrightarrow> fetchCaseData d caseId st = (st\<lparr>isLoading := False\<rparr>, Navigate ''/cases'')
          \<and> render (fst (fetchCaseData d caseId initial_case_page)) = CaseNotFound)
   \<and> (caseId \<notin> ids (cases d) \<longrightarrow> snd (fetchCaseData d caseId st) = Navigate ''/cases'')
   \<and> (tenant_scoped pol d uid
        \<and> (\<forall>c \<in> set (cases d). row_id c = caseId \<longrightarrow> fetchFirmId d uid \<noteq> Some (firm_id c))
      \<longrightarrow> fetchCaseData (rls_view pol uid d) caseId st
            = (st\<lparr>isLoading := False\<rparr>, Navigate ''/cases''))"
proof -
  have none: "fetchCaseData d' caseId st' = (st'\<lparr>isLoading := False\<rparr>, Navigate ''/cases'')"
    if "run_query [\<lambda>c. row_id c = caseId] (cases d') = []" for d' st'
    using that by (simp add: fetchCaseData_def)
  have a: "render (fst (fetchCaseData d caseId initial_case_page)) = CaseNotFound"
    if "run_query [\<lambda>c. row_id c = caseId] (cases d) = []"
    by (simp add: none [OF that] render_def initial_case_page_def)
  have b: "snd (fetchCaseData d caseId st) = Navigate ''/cases''" if "caseId \<notin> ids (cases d)"
  proof -
    from that have "run_query [\<lambda>c. row_id c = caseId] (cases d) = []"
      by (auto simp: run_query_def filter_empty_conv ids_def)
    then show ?thesis by (simp add: none)
  qed
  have c: "fetchCaseData (rls_view pol uid d) caseId st = (st\<lparr>isLoading := False\<rparr>, Navigate ''/cases'')"
    if ts: "tenant_scoped pol d uid"
      and other: "\<forall>c \<in> set (cases d). row_id c = caseId \<longrightarrow> fetchFirmId d uid \<noteq> Some (firm_id c)"
  proof -
    from ts have "\<forall>c \<in> set (cases d). admitted (on_cases pol) d uid c
        \<longrightarrow> fetchFirmId d uid = Some (firm_id c)"
      by (auto simp: tenant_scoped_def list_all_iff)
    with other have "run_query [\<lambda>c. row_id c = caseId] (cases (rls_view pol uid d)) = []"
      by (auto simp: run_query_def filter_empty_conv rls_view_def)
    then show ?thesis by (rule none)
  qed
  from none a b c show ?thesis by blast
qed


theorem fetchCaseData_not_found_witness:
  "run_query [\<lambda>c. row_id c = ''case-unknown''] (cases example_db) = []
   \<and> fetchCaseData example_db ''case-unknown'' initial_case_page
       = (initial_case_page\<lparr>isLoading := False\<rparr>, Navigate ''/cases'')
   \<and> render (fst (fetchCaseData example_db ''case-unknown'' initial_case_page)) = CaseNotFound
   \<and> tenant_scoped own_firm_policies example_db (Some ''user-acme'')
   \<and> ''case-firm-baker-i'' \<in> ids (cases example_db)
   \<and> fetchCaseData (rls_view own_firm_policies (Some ''user-acme'') example_db)
         ''case-firm-baker-i'' initial_case_page
       = (initial_case_page\<lparr>isLoading := False\<rparr>, Navigate ''/cases'')"
proof -
  have a: "run_query [\<lambda>c. row_id c = ''case-unknown''] (cases example_db) = []" by code_simp
  have b: "tenant_scoped own_firm_policies example_db (Some ''user-acme'')" by code_simp
  have c: "\<forall>c \<in> set (cases example_db). row_id c = ''case-firm-baker-i''
      \<longrightarrow> fetchFirmId example_db (Some ''user-acme'') \<noteq> Some (firm_id c)" by code_simp
  have e: "''case-firm-baker-i'' \<in> ids (cases example_db)" by code_simp
  from a b c e
    fetchCaseData_not_found [of "''case-unknown''" example_db initial_case_page own_firm_policies
      "Some ''user-acme''"]
    fetchCaseData_not_found [of "''case-firm-baker-i''" example_db initial_case_page
      own_firm_policies "Some ''user-acme''"]
  show ?thesis by blast
qed


text \<open>
  The lookup of the case page carries no firm filter of its own: on a store shown without
  any policy in between, a case of the other firm is found by its id.
\<close>

lemma fetchCaseData_has_no_firm_filter:
  "map firm_id (run_query [\<lambda>c. row_id c = ''case-firm-baker-i''] (cases example_db))
     = [''firm-baker'']
   \<and> snd (fetchCaseData example_db ''case-firm-baker-i'' initial_case_page) = Nothing"
  by code_simp


section \<open>Tenant isolation\<close>

lemma tenant_scoped_view:
  assumes ts: "tenant_scoped pol d uid" and m: "fetchFirmId d uid = Some F1"
  shows "\<forall>r \<in> set (parties (rls_view pol uid d)). firm_id r = F1"
    and "\<forall>r \<in> set (cases (rls_view pol uid d)). firm_id r = F1"
    and "\<forall>r \<in> set (security_interests (rls_view pol uid d)). firm_id r = F1"
    and "\<forall>r \<in> set (documents (rls_view pol uid d)). firm_id r = F1"
    and "\<forall>r \<in> set (deadlines (rls_view pol uid d)). firm_id r = F1"
    and "\<forall>r \<in> set (financials (rls_view pol uid d)). firm_id r = F1"
  using ts m by (auto simp: tenant_scoped_def list_all_iff rls_view_def)












end
